theory Spec2Isabelle
  imports Main "HOL-Library.Char_ord" "HOL-Library.List_Lexorder"
begin

section \<open>Strings\<close>

text \<open>
  A JavaScript string is modelled as a \<^typ>\<open>string\<close>: a list of characters with codes
  below 256. The order on strings is the one \<open>Array.prototype.sort\<close> uses by default:
  code unit by code unit, a proper prefix first.
\<close>

abbreviation dq :: char where "dq \<equiv> CHR 0x22"
abbreviation sq :: char where "sq \<equiv> CHR 0x27"
abbreviation LF :: char where "LF \<equiv> CHR 0x0A"
abbreviation CR :: char where "CR \<equiv> CHR 0x0D"

text \<open>\<open>s.replaceAll(c, rep)\<close> for a one-character pattern \<open>c\<close>.\<close>

definition replaceAll :: "char \<Rightarrow> string \<Rightarrow> string \<Rightarrow> string" where
  "replaceAll c rep s = concat (map (\<lambda>x. if x = c then rep else [x]) s)"

text \<open>\<open>s.toLowerCase()\<close> on characters below 256.\<close>

definition lowerChar :: "char \<Rightarrow> char" where
  "lowerChar c =
     (let n = (of_char c :: nat)
      in if (65 \<le> n \<and> n \<le> 90) \<or> (192 \<le> n \<and> n \<le> 214) \<or> (216 \<le> n \<and> n \<le> 222)
         then char_of (n + 32) else c)"

definition toLowerCase :: "string \<Rightarrow> string" where
  "toLowerCase s = map lowerChar s"

section \<open>lib/universal/fluent-html.ts: data\<close>

text \<open>
  \<open>AttrValue = string | number | boolean | null | undefined\<close>. The only thing the code
  does with a number is \<open>String(v)\<close>, so a number is carried as that text.
\<close>

datatype AttrValue = AStr string | ANum string | ABool bool | ANull | AUndefined

text \<open>
  \<open>Attrs = Record<string, AttrValue>\<close>: the own properties in insertion order. The code
  reads the keys with \<open>Object.keys\<close> and a value with \<open>attrs[k]\<close>.
\<close>

type_synonym Attrs = "(string \<times> AttrValue) list"

definition Object_keys :: "Attrs \<Rightarrow> string list" where
  "Object_keys a = remdups (map fst a)"

definition hasKey :: "string \<Rightarrow> Attrs \<Rightarrow> bool" where
  "hasKey k a = (k \<in> set (map fst a))"

definition getProp :: "Attrs \<Rightarrow> string \<Rightarrow> AttrValue" where
  "getProp a k = (case map_of a k of Some v \<Rightarrow> v | None \<Rightarrow> AUndefined)"

text \<open>\<open>String(v)\<close> and the test \<open>v == null\<close>.\<close>

fun String :: "AttrValue \<Rightarrow> string" where
  "String (AStr s) = s"
| "String (ANum n) = n"
| "String (ABool b) = (if b then ''true'' else ''false'')"
| "String ANull = ''null''"
| "String AUndefined = ''undefined''"

fun isNullish :: "AttrValue \<Rightarrow> bool" where
  "isNullish ANull = True"
| "isNullish AUndefined = True"
| "isNullish _ = False"

text \<open>
  \<open>HtmlAst\<close>. The optional fields \<open>attrs\<close> and \<open>children\<close> of an element are options;
  \<open>void\<close> is \<open>true\<close> or \<open>undefined\<close> and is only ever tested for truth.
\<close>

datatype HtmlAst =
    Fragment "HtmlAst list"
  | Element string "(string \<times> AttrValue) list option" "HtmlAst list option" bool
  | Text string
  | Raw string
  | Comment string
  | Doctype

record RawHtml =
  rawHtml :: string
  ast :: "HtmlAst option"

datatype DomNodeLike = DomNodeLike (nodeType: string)

text \<open>
  \<open>Child\<close>. A builder \<open>(e: ChildAdder) => void\<close> is given by what it does with \<open>e\<close>:
  the calls it makes, in order, each with its list of arguments.
\<close>

datatype Child =
    CStr string
  | CNum string
  | CBool bool
  | CNull
  | CUndefined
  | CRaw RawHtml
  | CDom DomNodeLike
  | CArr "Child list"
  | CBuilder "Child list list"

text \<open>
  A value of the list that \<open>childrenToAst\<close> walks: a string, an object with
  \<open>__rawHtml\<close>, an object with \<open>nodeType\<close>, or any other value. \<open>flattenChildren\<close>
  pushes values of the first three kinds only.
\<close>

datatype Flat = FStr string | FRaw RawHtml | FDom DomNodeLike | FOther

text \<open>
  Every \<open>throw\<close> of the module is \<open>throw new Error(message)\<close>. \<open>TypeError\<close> is what
  the runtime throws where \<open>String(c)\<close> cannot convert an object, or where what is called
  is not a function.
\<close>

datatype error = Error string | TypeError string

section \<open>Raw policy\<close>

datatype RawMode = Permissive | DevStrict

text \<open>
  \<open>RawPolicy = { mode?: ... }\<close>: \<open>None\<close> when the object has no \<open>mode\<close> property,
  \<open>Some None\<close> when it has the property with value \<open>undefined\<close>.
\<close>

record RawPolicy =
  mode :: "RawMode option option"

definition rawPolicy_init :: RawPolicy where
  "rawPolicy_init = \<lparr>mode = Some (Some Permissive)\<rparr>"

text \<open>\<open>rawPolicy = { ...rawPolicy, ...policy }\<close>; the module variable is passed and returned.\<close>

definition setRawPolicy :: "RawPolicy \<Rightarrow> RawPolicy \<Rightarrow> RawPolicy" where
  "setRawPolicy policy rawPolicy =
     \<lparr>mode = (case mode policy of None \<Rightarrow> mode rawPolicy | Some m \<Rightarrow> Some m)\<rparr>"

definition trustedRaw :: "string \<Rightarrow> string option \<Rightarrow> RawHtml" where
  "trustedRaw html hint = \<lparr>rawHtml = html, ast = Some (Raw html)\<rparr>"

text \<open>A hint is truthy when it is given and not empty.\<close>

definition raw :: "RawPolicy \<Rightarrow> string \<Rightarrow> string option \<Rightarrow> error + RawHtml" where
  "raw rawPolicy html hint =
     (if mode rawPolicy = Some (Some DevStrict)
      then Inl (Error (case hint of
                         None \<Rightarrow> ''raw() is blocked by dev-strict policy''
                       | Some h \<Rightarrow> if h = [] then ''raw() is blocked by dev-strict policy''
                                   else ''raw() is blocked by dev-strict policy: '' @ h))
      else Inr (trustedRaw html hint))"

section \<open>Escaping\<close>

definition escapeHtml :: "string \<Rightarrow> string" where
  "escapeHtml v =
     replaceAll sq ''&#39;''
       (replaceAll dq ''&quot;''
         (replaceAll CHR ''>'' ''&gt;''
           (replaceAll CHR ''<'' ''&lt;''
             (replaceAll CHR ''&'' ''&amp;'' v))))"

definition escapeAttr :: "string \<Rightarrow> string" where
  "escapeAttr v = escapeHtml v"

section \<open>Flattening children\<close>

text \<open>
  \<open>visit\<close> pushes onto the array \<open>out\<close>, which is passed and returned. \<open>visit_each\<close> is
  the loop \<open>for (const x of xs) visit(x)\<close>; \<open>run_builder\<close> runs a builder: one
  \<open>visit_each\<close> for each call of \<open>emit\<close>.
\<close>

fun visit :: "Child \<Rightarrow> Flat list \<Rightarrow> Flat list"
  and visit_each :: "Child list \<Rightarrow> Flat list \<Rightarrow> Flat list"
  and run_builder :: "Child list list \<Rightarrow> Flat list \<Rightarrow> Flat list" where
  "visit CNull out = out"
| "visit CUndefined out = out"
| "visit (CBool False) out = out"
| "visit (CBuilder calls) out = run_builder calls out"
| "visit (CArr xs) out = visit_each xs out"
| "visit (CRaw r) out = out @ [FRaw r]"
| "visit (CDom d) out = out @ [FDom d]"
| "visit (CBool True) out = out"
| "visit (CStr s) out = out @ [FStr s]"
| "visit (CNum n) out = out @ [FStr n]"
| "visit_each [] out = out"
| "visit_each (x # xs) out = visit_each xs (visit x out)"
| "run_builder [] out = out"
| "run_builder (xs # calls) out = run_builder calls (visit_each xs out)"

definition flattenChildren :: "Child list \<Rightarrow> Flat list" where
  "flattenChildren children = visit_each children []"

section \<open>Attributes\<close>

text \<open>One round of the loop over the sorted keys: what it appends to \<open>s\<close>.\<close>

definition serializeAttr :: "Attrs \<Rightarrow> string \<Rightarrow> string" where
  "serializeAttr attrs k =
     (let v = getProp attrs k
      in if isNullish v \<or> v = ABool False then []
         else if v = ABool True then '' '' @ k
         else '' '' @ k @ ''='' @ [dq] @ escapeAttr (String v) @ [dq])"

definition serializeAttrs :: "Attrs option \<Rightarrow> string" where
  "serializeAttrs attrs =
     (case attrs of
        None \<Rightarrow> []
      | Some a \<Rightarrow> concat (map (serializeAttr a) (sort (Object_keys a))))"

definition attrsToAst :: "Attrs \<Rightarrow> (string \<times> AttrValue) list" where
  "attrsToAst a =
     concat (map (\<lambda>k. let v = getProp a k
                      in if isNullish v \<or> v = ABool False then [] else [(k, v)])
                 (sort (Object_keys a)))"

section \<open>Void elements\<close>

definition VOID_ELEMENTS :: "string list" where
  "VOID_ELEMENTS =
     [''area'', ''base'', ''br'', ''col'', ''embed'', ''hr'', ''img'', ''input'',
      ''link'', ''meta'', ''param'', ''source'', ''track'', ''wbr'']"

definition isVoidElement :: "string \<Rightarrow> bool" where
  "isVoidElement t = (toLowerCase t \<in> set VOID_ELEMENTS)"

section \<open>Children to AST\<close>

text \<open>
  The loop of \<open>childrenToAst\<close> over the flattened list: a string becomes a text node, a
  \<open>RawHtml\<close> gives the AST it carries, a DOM-like object and any other value make it
  throw.
\<close>

text \<open>The expression \<open>rh.__ast ?? { kind: "raw", html: rh.__rawHtml }\<close>.\<close>

definition retainedAst :: "RawHtml \<Rightarrow> HtmlAst" where
  "retainedAst rh = (case ast rh of Some a \<Rightarrow> a | None \<Rightarrow> Raw (rawHtml rh))"

fun flatToAst :: "Flat list \<Rightarrow> error + HtmlAst list" where
  "flatToAst [] = Inr []"
| "flatToAst (FStr c # flat) =
     (case flatToAst flat of Inl e \<Rightarrow> Inl e | Inr out \<Rightarrow> Inr (Text c # out))"
| "flatToAst (FRaw rh # flat) =
     (case flatToAst flat of Inl e \<Rightarrow> Inl e | Inr out \<Rightarrow> Inr (retainedAst rh # out))"
| "flatToAst (FDom d # flat) = Inl (Error ''Fluent server error: DomNodeLike not supported here.'')"
| "flatToAst (FOther # flat) = Inl (Error ''Fluent server error: unsupported child type.'')"

definition childrenToAst :: "Child list \<Rightarrow> error + HtmlAst list" where
  "childrenToAst children = flatToAst (flattenChildren children)"

section \<open>Minimized rendering\<close>

definition attrToken :: "string \<times> AttrValue \<Rightarrow> string" where
  "attrToken kv =
     (case kv of (k, v) \<Rightarrow>
        if v = ABool True then '' '' @ k
        else '' '' @ k @ ''='' @ [dq] @ escapeAttr (String v) @ [dq])"

definition attrText :: "(string \<times> AttrValue) list option \<Rightarrow> string" where
  "attrText attrs = concat (map attrToken (case attrs of None \<Rightarrow> [] | Some a \<Rightarrow> a))"

fun renderAstMinimized :: "HtmlAst \<Rightarrow> string" where
  "renderAstMinimized (Fragment children) = concat (map renderAstMinimized children)"
| "renderAstMinimized Doctype = ''<!doctype html>''"
| "renderAstMinimized (Comment t) = ''<!--'' @ escapeHtml t @ ''-->''"
| "renderAstMinimized (Raw html) = html"
| "renderAstMinimized (Text t) = escapeHtml t"
| "renderAstMinimized (Element tag attrs children void) =
     (if void then ''<'' @ tag @ attrText attrs @ ''>''
      else ''<'' @ tag @ attrText attrs @ ''>''
           @ concat (map renderAstMinimized (case children of None \<Rightarrow> [] | Some cs \<Rightarrow> cs))
           @ ''</'' @ tag @ ''>'')"

section \<open>Tag functions\<close>

text \<open>
  An argument of a tag function: a plain object of attribute values (an object literal,
  whose prototype is \<open>Object.prototype\<close>), or a child.
  \<open>isAttrs\<close> accepts a plain object with neither a \<open>__rawHtml\<close> nor a \<open>nodeType\<close> key; no
  child is one (a \<open>RawHtml\<close> has \<open>__rawHtml\<close>, a \<open>DomNodeLike\<close> has \<open>nodeType\<close>, arrays,
  functions and primitives are not plain objects).
\<close>

datatype Arg = AttrsArg Attrs | ChildArg Child

fun isAttrs :: "Arg \<Rightarrow> bool" where
  "isAttrs (AttrsArg v) = (\<not> hasKey ''__rawHtml'' v \<and> \<not> hasKey ''nodeType'' v)"
| "isAttrs (ChildArg c) = False"

text \<open>
  The first statement of \<open>el\<close>: the split of \<open>args\<close> into \<open>at\<close> and \<open>kids\<close>.
\<close>

fun splitArgs :: "Arg list \<Rightarrow> Attrs option \<times> Arg list" where
  "splitArgs [] = (None, [])"
| "splitArgs (AttrsArg v # rest) =
     (if isAttrs (AttrsArg v) then (Some v, rest) else (None, AttrsArg v # rest))"
| "splitArgs (ChildArg c # rest) = (None, ChildArg c # rest)"

text \<open>
  A plain object left among \<open>kids\<close> is walked by \<open>flattenChildren\<close> like any other
  value. With a \<open>__rawHtml\<close> key it passes as a \<open>RawHtml\<close> (its \<open>__rawHtml\<close> read as the
  text \<open>join\<close> makes of it; an \<open>__ast\<close> of its own is not modelled). Else with a
  \<open>nodeType\<close> key it passes as a \<open>DomNodeLike\<close>. Else it reaches \<open>String(c)\<close>: an object
  literal with no \<open>toString\<close> property of its own becomes the text \<open>[object Object]\<close>;
  with one, which as an attribute value is not callable, the conversion throws a
  \<open>TypeError\<close> (the message is the one of V8).
\<close>

definition joinText :: "AttrValue \<Rightarrow> string" where
  "joinText v = (if isNullish v then [] else String v)"

fun argAsChild :: "Arg \<Rightarrow> error + Child" where
  "argAsChild (ChildArg c) = Inr c"
| "argAsChild (AttrsArg v) =
     (if hasKey ''__rawHtml'' v
        then Inr (CRaw \<lparr>rawHtml = joinText (getProp v ''__rawHtml''), ast = None\<rparr>)
      else if hasKey ''nodeType'' v
        then Inr (CDom (DomNodeLike (String (getProp v ''nodeType''))))
      else if hasKey ''toString'' v
        then Inl (TypeError ''Cannot convert object to primitive value'')
      else Inr (CStr ''[object Object]''))"

text \<open>
  The values of \<open>kids\<close> as children, in order, or the error of the first whose walk throws.
  The walk of a child of the declared type does not throw, so when a plain object makes it
  throw, that is the error of the whole walk.
\<close>

fun argsAsChildren :: "Arg list \<Rightarrow> error + Child list" where
  "argsAsChildren [] = Inr []"
| "argsAsChildren (a # as) =
     (case argAsChild a of
        Inl e \<Rightarrow> Inl e
      | Inr c \<Rightarrow> (case argsAsChildren as of Inl e \<Rightarrow> Inl e | Inr cs \<Rightarrow> Inr (c # cs)))"

definition el :: "string \<Rightarrow> Arg list \<Rightarrow> error + RawHtml" where
  "el tag args =
     (case splitArgs args of (at, kids) \<Rightarrow>
        if isVoidElement tag
        then (let a = Element tag (map_option attrsToAst at) None True
              in Inr \<lparr>rawHtml = renderAstMinimized a, ast = Some a\<rparr>)
        else (case argsAsChildren kids of
                Inl e \<Rightarrow> Inl e
              | Inr children \<Rightarrow>
                  (case childrenToAst children of
                     Inl e \<Rightarrow> Inl e
                   | Inr cs \<Rightarrow>
                       (let a = Element tag (map_option attrsToAst at) (Some cs) False
                        in Inr \<lparr>rawHtml = renderAstMinimized a, ast = Some a\<rparr>))))"

definition doctype :: RawHtml where
  "doctype = \<lparr>rawHtml = renderAstMinimized Doctype, ast = Some Doctype\<rparr>"

definition comment :: "string \<Rightarrow> RawHtml" where
  "comment s = \<lparr>rawHtml = renderAstMinimized (Comment s), ast = Some (Comment s)\<rparr>"

text \<open>A part handed to \<open>render\<close> or \<open>renderPretty\<close>: \<open>string | RawHtml\<close>.\<close>

datatype Part = PStr string | PRaw RawHtml

definition render :: "Part list \<Rightarrow> string" where
  "render parts = concat (map (\<lambda>p. case p of PStr s \<Rightarrow> s | PRaw r \<Rightarrow> rawHtml r) parts)"

section \<open>Pretty rendering\<close>

text \<open>
  The string operations of the pretty renderer: \<open>replaceAll\<close> of a carriage return and
  line feed by a line feed, \<open>split\<close> at line feeds, \<open>trim\<close> (the white space below 256),
  \<open>join\<close> with line feeds.
\<close>

fun replaceCRLF :: "string \<Rightarrow> string" where
  "replaceCRLF [] = []"
| "replaceCRLF [c] = [c]"
| "replaceCRLF (c # d # s) =
     (if c = CR \<and> d = LF then LF # replaceCRLF s else c # replaceCRLF (d # s))"

fun splitLF :: "string \<Rightarrow> string list" where
  "splitLF [] = [[]]"
| "splitLF (c # s) =
     (if c = LF then [] # splitLF s
      else (case splitLF s of l # ls \<Rightarrow> (c # l) # ls | [] \<Rightarrow> [[c]]))"

definition isWhiteSpace :: "char \<Rightarrow> bool" where
  "isWhiteSpace c = (of_char c \<in> set [9, 10, 11, 12, 13, 32, 160 :: nat])"

definition trim :: "string \<Rightarrow> string" where
  "trim s = rev (dropWhile isWhiteSpace (rev (dropWhile isWhiteSpace s)))"

fun joinLF :: "string list \<Rightarrow> string" where
  "joinLF [] = []"
| "joinLF [l] = l"
| "joinLF (l # ls) = l @ [LF] @ joinLF ls"

definition indentUnit :: string where
  "indentUnit = ''  ''"

definition isRawBlockTag :: "string \<Rightarrow> bool" where
  "isRawBlockTag t =
     (let n = toLowerCase t
      in n = ''script'' \<or> n = ''style'' \<or> n = ''pre'' \<or> n = ''textarea'')"

fun shouldInlineTextOnly :: "HtmlAst \<Rightarrow> bool" where
  "shouldInlineTextOnly (Element tag attrs children void) =
     (if void then True
      else (case (case children of None \<Rightarrow> [] | Some cs \<Rightarrow> cs) of
              [] \<Rightarrow> True
            | [Text t] \<Rightarrow> if LF \<in> set t then False else length (trim t) \<le> 80
            | _ \<Rightarrow> False))"
| "shouldInlineTextOnly _ = False"

definition openTag :: "string \<Rightarrow> (string \<times> AttrValue) list option \<Rightarrow> string" where
  "openTag tag attrs = ''<'' @ tag @ attrText attrs @ ''>''"

definition closeTag :: "string \<Rightarrow> string" where
  "closeTag tag = ''</'' @ tag @ ''>''"

definition pad :: "nat \<Rightarrow> string" where
  "pad depth = concat (replicate depth indentUnit)"

text \<open>
  \<open>emit\<close> pushes onto the array \<open>lines\<close>, which is passed and returned. \<open>emit_each\<close> is
  the loop over the children of a fragment or element, \<open>emit_raw_block\<close> the loop over the
  children of \<open>script\<close>, \<open>style\<close>, \<open>pre\<close> and \<open>textarea\<close>. Where an element is
  printed on one line, \<open>shouldInlineTextOnly\<close> has found that its only child is a text
  node, so the other branch of the \<open>case\<close> there is never taken.
\<close>

fun emit :: "HtmlAst \<Rightarrow> nat \<Rightarrow> string list \<Rightarrow> string list"
  and emit_each :: "HtmlAst list \<Rightarrow> nat \<Rightarrow> string list \<Rightarrow> string list"
  and emit_raw_block :: "HtmlAst list \<Rightarrow> nat \<Rightarrow> string list \<Rightarrow> string list" where
  "emit (Fragment children) depth lines = emit_each children depth lines"
| "emit Doctype depth lines = lines @ [pad depth @ ''<!doctype html>'']"
| "emit (Comment t) depth lines = lines @ [pad depth @ ''<!--'' @ escapeHtml t @ ''-->'']"
| "emit (Raw html) depth lines = lines @ map (\<lambda>rl. pad depth @ rl) (splitLF (replaceCRLF html))"
| "emit (Text t) depth lines = lines @ [pad depth @ escapeHtml t]"
| "emit (Element tag attrs None void) depth lines =
     (if void then lines @ [pad depth @ openTag tag attrs]
      else lines @ [pad depth @ openTag tag attrs @ closeTag tag])"
| "emit (Element tag attrs (Some kids) void) depth lines =
     (if void then lines @ [pad depth @ openTag tag attrs]
      else if kids = [] then lines @ [pad depth @ openTag tag attrs @ closeTag tag]
      else if \<not> isRawBlockTag tag \<and> shouldInlineTextOnly (Element tag attrs (Some kids) void)
      then (case kids of
              Text t # _ \<Rightarrow> lines @ [pad depth @ openTag tag attrs @ escapeHtml t @ closeTag tag]
            | _ \<Rightarrow> lines)
      else (if isRawBlockTag tag
            then emit_raw_block kids depth (lines @ [pad depth @ openTag tag attrs])
            else emit_each kids (depth + 1) (lines @ [pad depth @ openTag tag attrs]))
           @ [pad depth @ closeTag tag])"
| "emit_each [] depth lines = lines"
| "emit_each (c # cs) depth lines = emit_each cs depth (emit c depth lines)"
| "emit_raw_block [] depth lines = lines"
| "emit_raw_block (Text t # cs) depth lines =
     emit_raw_block cs depth
       (lines @ map (\<lambda>line. pad depth @ indentUnit @ line) (splitLF (replaceCRLF t)))"
| "emit_raw_block (Raw html # cs) depth lines =
     emit_raw_block cs depth
       (lines @ map (\<lambda>line. pad depth @ indentUnit @ line) (splitLF (replaceCRLF html)))"
| "emit_raw_block (c # cs) depth lines = emit_raw_block cs depth (emit c (depth + 1) lines)"

definition renderAstPretty :: "HtmlAst \<Rightarrow> string" where
  "renderAstPretty root =
     (let lines = emit root 0 []
      in if lines = [] then [] else joinLF lines @ [LF])"

definition renderPretty :: "Part list \<Rightarrow> string" where
  "renderPretty parts =
     renderAstPretty (Fragment (map (\<lambda>p. case p of PStr s \<Rightarrow> Raw s | PRaw r \<Rightarrow> retainedAst r) parts))"

section \<open>The design-system runtime\<close>

text \<open>
  Modelled from the spec: the module \<open>lib/universal/fluent-ds.ts\<close> (\<open>createDesignSystem\<close>,
  \<open>defineRegion\<close>, \<open>defineLayout\<close>, \<open>slots\<close>, \<open>RenderCtx\<close>, \<open>page\<close>) is missing from
  the sources. Every definition of this section is written from sections 3, 4.3 to 4.6 and
  7 of the specification and from the way the sources call the module.
\<close>

text \<open>Modelled from the spec: the failure conditions of the missing module (section 7),
  with the errors of the HTML builder passed on.\<close>

datatype ds_error =
    MissingRequiredSlot string string
  | UnknownSlot string string
  | UnknownRegion string
  | UnknownLayout string
  | DuplicateRegistration string string
  | HtmlError error

text \<open>Modelled from the spec: the missing type \<open>NamingStrategy\<close>, three pure functions;
  the field names are those of the \<open>naming\<close> object of the starter system.\<close>

record NamingStrategy =
  elemIdValue :: "string \<Rightarrow> string \<Rightarrow> string"
  elemDataAttr :: "string \<Rightarrow> string \<Rightarrow> string \<Rightarrow> string"
  className :: "string \<Rightarrow> string \<Rightarrow> string"

text \<open>Modelled from the spec: the missing \<open>RenderCtx\<close>. It carries the naming strategy;
  \<open>kind\<close> is the kind tag of the unit being rendered (\<open>layout\<close> or \<open>region\<close>).\<close>

record RenderCtx =
  naming :: NamingStrategy
  kind :: string

text \<open>Modelled from the spec: \<open>ctx.cls(name)\<close> of the missing \<open>RenderCtx\<close>: the class
  name the naming strategy gives for the name and the kind of the unit being rendered.\<close>

definition cls :: "RenderCtx \<Rightarrow> string \<Rightarrow> string" where
  "cls ctx suggested = className (naming ctx) suggested (kind ctx)"

text \<open>Modelled from the spec: the missing type of slot maps: names bound to slot
  builders; a name bound to \<open>undefined\<close> is bound to no callable builder.\<close>

datatype SlotVal = SlotBuilder "RenderCtx \<Rightarrow> ds_error + RawHtml" | SlotUndefined

type_synonym SlotMap = "(string \<times> SlotVal) list"

text \<open>Modelled from the spec: the slot accessor of the missing module: reading a slot
  that was not supplied gives \<open>undefined\<close>.\<close>

definition getSlot :: "SlotMap \<Rightarrow> string \<Rightarrow> SlotVal" where
  "getSlot s n = (case map_of s n of Some v \<Rightarrow> v | None \<Rightarrow> SlotUndefined)"

text \<open>Modelled from the spec: a name is "present and a callable slot builder".\<close>

definition isCallable :: "SlotMap \<Rightarrow> string \<Rightarrow> bool" where
  "isCallable s n = (case getSlot s n of SlotBuilder f \<Rightarrow> True | SlotUndefined \<Rightarrow> False)"

text \<open>Modelled from the spec: the missing type \<open>SlotSpec = { required, optional }\<close>.\<close>

record SlotSpec =
  required :: "string list"
  optional :: "string list"

text \<open>Modelled from the spec: the missing \<open>slots({ required, optional })\<close>.\<close>

definition slots :: "string list \<Rightarrow> string list \<Rightarrow> SlotSpec" where
  "slots req opt = \<lparr>required = req, optional = opt\<rparr>"

text \<open>Modelled from the spec: the unknown-slot policy of the missing module, \<open>throw\<close>
  or \<open>ignore\<close>.\<close>

datatype UnknownSlotMode = Throw | Ignore

text \<open>Modelled from the spec: the validation step of the missing module (section 4.3).
  Every required name must
  be bound to a callable builder, else \<open>MissingRequiredSlot\<close> names the first one that is
  not, and the owner; then, under the policy \<open>throw\<close>, a supplied name that is neither
  required nor optional gives \<open>UnknownSlot\<close>.\<close>

definition validateSlots ::
  "UnknownSlotMode \<Rightarrow> string \<Rightarrow> SlotSpec \<Rightarrow> SlotMap \<Rightarrow> ds_error option" where
  "validateSlots policy owner spec supplied =
     (case filter (\<lambda>n. \<not> isCallable supplied n) (required spec) of
        n # _ \<Rightarrow> Some (MissingRequiredSlot n owner)
      | [] \<Rightarrow>
          (case filter (\<lambda>k. k \<notin> set (required spec @ optional spec)) (map fst supplied) of
             k # _ \<Rightarrow> (case policy of Throw \<Rightarrow> Some (UnknownSlot k owner) | Ignore \<Rightarrow> None)
           | [] \<Rightarrow> None))"

text \<open>Modelled from the spec: what the missing \<open>defineRegion\<close> returns: a name, a slot
  spec and a render function.\<close>

record Region =
  region_name :: string
  region_slots :: SlotSpec
  region_render :: "RenderCtx \<Rightarrow> SlotMap \<Rightarrow> ds_error + RawHtml"

text \<open>Modelled from the spec: what the missing \<open>defineLayout\<close> returns; its render
  function reaches regions by name through the API it is given.\<close>

type_synonym RegionApi = "string \<Rightarrow> SlotMap \<Rightarrow> ds_error + RawHtml"

record Layout =
  layout_name :: string
  layout_slots :: SlotSpec
  layout_headSlots :: "SlotSpec option"
  layout_render :: "RenderCtx \<Rightarrow> RegionApi \<Rightarrow> SlotMap \<Rightarrow> ds_error + RawHtml"

text \<open>Modelled from the spec: a user-agent dependency of the missing module: where the
  asset is served, where it comes from, its MIME type, and whether it is a module.\<close>

record UaDependency =
  mountPoint :: string
  canonicalSource :: string
  mimeType :: string
  asModule :: bool

text \<open>Modelled from the spec: the design system of the missing module. Of the policies
  the model keeps the unknown-slot mode; wrapper elements, which the starter system turns
  off, are not rendered.\<close>

record DesignSystem =
  ds_name :: string
  ds_naming :: NamingStrategy
  unknownSlotMode :: UnknownSlotMode
  uaDependencies :: "UaDependency list"
  regions :: "(string \<times> Region) list"
  layouts :: "(string \<times> Layout) list"

text \<open>Modelled from the spec: the missing \<open>createDesignSystem(name, naming)\<close>: nothing
  registered yet, and the unknown-slot policy at its default, \<open>throw\<close>.\<close>

definition createDesignSystem :: "string \<Rightarrow> NamingStrategy \<Rightarrow> DesignSystem" where
  "createDesignSystem dsName n =
     \<lparr>ds_name = dsName, ds_naming = n, unknownSlotMode = Throw, uaDependencies = [],
      regions = [], layouts = []\<rparr>"

text \<open>Modelled from the spec: the missing builder method \<open>.region(r)\<close>; registering a
  name twice fails with \<open>DuplicateRegistration(kind, name)\<close>.\<close>

definition addRegion :: "Region \<Rightarrow> DesignSystem \<Rightarrow> ds_error + DesignSystem" where
  "addRegion r ds =
     (if region_name r \<in> set (map fst (regions ds))
      then Inl (DuplicateRegistration ''region'' (region_name r))
      else Inr (ds\<lparr>regions := regions ds @ [(region_name r, r)]\<rparr>))"

text \<open>Modelled from the spec: the missing builder method \<open>.layout(l)\<close>, likewise.\<close>

definition addLayout :: "Layout \<Rightarrow> DesignSystem \<Rightarrow> ds_error + DesignSystem" where
  "addLayout l ds =
     (if layout_name l \<in> set (map fst (layouts ds))
      then Inl (DuplicateRegistration ''layout'' (layout_name l))
      else Inr (ds\<lparr>layouts := layouts ds @ [(layout_name l, l)]\<rparr>))"

text \<open>Sequencing of steps that may fail, and a tag function whose error is passed on.\<close>

definition andThen :: "'e + 'a \<Rightarrow> ('a \<Rightarrow> 'e + 'b) \<Rightarrow> 'e + 'b" where
  "andThen m f = (case m of Inl e \<Rightarrow> Inl e | Inr x \<Rightarrow> f x)"

definition tagFn :: "string \<Rightarrow> Arg list \<Rightarrow> ds_error + RawHtml" where
  "tagFn name args = (case el name args of Inl e \<Rightarrow> Inl (HtmlError e) | Inr r \<Rightarrow> Inr r)"

text \<open>Modelled from the spec: the missing \<open>api.region(name, subslots)\<close>: look the region up
  (\<open>UnknownRegion\<close> if absent), validate the slots, render it in a region context.\<close>

definition invokeRegion :: "DesignSystem \<Rightarrow> RegionApi" where
  "invokeRegion ds name subslots =
     (case map_of (regions ds) name of
        None \<Rightarrow> Inl (UnknownRegion name)
      | Some r \<Rightarrow>
          (case validateSlots (unknownSlotMode ds) (region_name r) (region_slots r) subslots of
             Some e \<Rightarrow> Inl e
           | None \<Rightarrow> region_render r \<lparr>naming = ds_naming ds, kind = ''region''\<rparr> subslots))"

text \<open>Modelled from the spec: the head tag the missing \<open>page\<close> emits for a dependency:
  a stylesheet link for CSS, a script (of type \<open>module\<close> when so declared) for
  JavaScript.\<close>

definition uaTag :: "UaDependency \<Rightarrow> (ds_error + RawHtml) list" where
  "uaTag d =
     (if mimeType d = ''text/css''
      then [tagFn ''link'' [AttrsArg [(''rel'', AStr ''stylesheet''), (''href'', AStr (mountPoint d))]]]
      else if mimeType d = ''application/javascript'' \<or> mimeType d = ''text/javascript''
      then [tagFn ''script''
              [AttrsArg [(''src'', AStr (mountPoint d)),
                         (''type'', if asModule d then AStr ''module'' else AUndefined)]]]
      else [])"

text \<open>The results of a list of steps, or the first error.\<close>

fun collect :: "('e + 'a) list \<Rightarrow> 'e + 'a list" where
  "collect [] = Inr []"
| "collect (m # ms) = andThen m (\<lambda>x. andThen (collect ms) (\<lambda>xs. Inr (x # xs)))"

text \<open>Modelled from the spec: the head slots in the missing \<open>page\<close>: those a caller
  supplies are rendered after the dependencies, in the order the layout declares them.\<close>

definition headSlotParts :: "RenderCtx \<Rightarrow> SlotSpec option \<Rightarrow> SlotMap \<Rightarrow> (ds_error + RawHtml) list" where
  "headSlotParts ctx spec supplied =
     (case spec of
        None \<Rightarrow> []
      | Some sp \<Rightarrow>
          concat (map (\<lambda>n. case getSlot supplied n of SlotBuilder f \<Rightarrow> [f ctx] | SlotUndefined \<Rightarrow> [])
                      (required sp @ optional sp)))"

text \<open>Modelled from the spec: the third argument of the missing \<open>page\<close>:
  \<open>{ slots, headSlots }\<close>.\<close>

record PageOptions =
  opt_slots :: SlotMap
  opt_headSlots :: "SlotMap option"

text \<open>Modelled from the spec: the missing \<open>page(layoutName, renderContext, { slots, headSlots })\<close>,
  steps 1 to 6 of section 4.6. The starter system's render input is the empty object and is
  left out. The result carries the fragment of the doctype and the \<open>html\<close> element.\<close>

definition page :: "DesignSystem \<Rightarrow> string \<Rightarrow> PageOptions \<Rightarrow> ds_error + RawHtml" where
  "page ds layoutName options =
     (case map_of (layouts ds) layoutName of
        None \<Rightarrow> Inl (UnknownLayout layoutName)
      | Some l \<Rightarrow>
          (case validateSlots (unknownSlotMode ds) (layout_name l) (layout_slots l) (opt_slots options) of
             Some e \<Rightarrow> Inl e
           | None \<Rightarrow>
               (let ctx = \<lparr>naming = ds_naming ds, kind = ''layout''\<rparr>;
                    hs = (case opt_headSlots options of None \<Rightarrow> [] | Some m \<Rightarrow> m)
                in andThen (layout_render l ctx (invokeRegion ds) (opt_slots options)) (\<lambda>body.
                   andThen (collect (concat (map uaTag (uaDependencies ds))
                                     @ headSlotParts ctx (layout_headSlots l) hs)) (\<lambda>headParts.
                   andThen (tagFn ''head'' (map (\<lambda>p. ChildArg (CRaw p)) headParts)) (\<lambda>hd.
                   andThen (tagFn ''body'' [ChildArg (CRaw body)]) (\<lambda>bd.
                   andThen (tagFn ''html'' [ChildArg (CRaw hd), ChildArg (CRaw bd)]) (\<lambda>doc.
                   Inr \<lparr>rawHtml = render [PRaw doctype, PRaw doc],
                        ast = Some (Fragment [retainedAst doctype, retainedAst doc])\<rparr>))))))))"

section \<open>lib/universal/fluent-ds-starter.ts\<close>

definition picoCssUrl :: string where
  "picoCssUrl = ''https://cdn.jsdelivr.net/npm/@picocss/pico@2/css/pico.min.css''"

definition starter_naming :: NamingStrategy where
  "starter_naming =
     \<lparr>elemIdValue = (\<lambda>suggested k. k @ ''-'' @ suggested),
      elemDataAttr = (\<lambda>suggestedKeyName suggestedValue k. ''data-'' @ suggestedKeyName),
      className = (\<lambda>suggested k. k @ ''-'' @ suggested)\<rparr>"

text \<open>Modelled from the spec: a call through the slot accessor of the missing module, as
  in \<open>s.title(ctx)\<close>. Calling a slot that is not there is a \<open>TypeError\<close>.\<close>

definition callSlot :: "SlotMap \<Rightarrow> string \<Rightarrow> RenderCtx \<Rightarrow> ds_error + RawHtml" where
  "callSlot s n ctx =
     (case getSlot s n of
        SlotBuilder f \<Rightarrow> f ctx
      | SlotUndefined \<Rightarrow> Inl (HtmlError (TypeError (''s.'' @ n @ '' is not a function''))))"

definition starterMainRegion :: Region where
  "starterMainRegion =
     \<lparr>region_name = ''Main'',
      region_slots = slots [''title'', ''content''] [''lead''],
      region_render = (\<lambda>ctx s.
        andThen (callSlot s ''title'' ctx) (\<lambda>t.
        andThen (tagFn ''h1'' [ChildArg (CRaw t)]) (\<lambda>h1.
        andThen (case getSlot s ''lead'' of
                   SlotBuilder f \<Rightarrow>
                     andThen (f ctx) (\<lambda>l.
                     andThen (tagFn ''div'' [AttrsArg [(''class'', AStr (cls ctx ''lead''))], ChildArg (CRaw l)])
                       (\<lambda>d. Inr (CRaw d)))
                 | SlotUndefined \<Rightarrow> Inr CNull) (\<lambda>lead.
        andThen (callSlot s ''content'' ctx) (\<lambda>c.
        andThen (tagFn ''section'' [AttrsArg [(''class'', AStr (cls ctx ''content''))], ChildArg (CRaw c)]) (\<lambda>sec.
        tagFn ''main''
          [AttrsArg [(''class'', AStr (cls ctx ''main'')),
                     (''id'', AStr (elemIdValue (naming ctx) ''main'' ''region''))],
           ChildArg (CRaw h1), ChildArg lead, ChildArg (CRaw sec)]))))))\<rparr>"

definition starterLayout :: Layout where
  "starterLayout =
     \<lparr>layout_name = ''Starter'',
      layout_slots = slots [''title'', ''content''] [''lead''],
      layout_headSlots = Some (slots [] [''title'']),
      layout_render = (\<lambda>ctx api s.
        andThen (api ''Main''
                   ([(''title'', getSlot s ''title''), (''content'', getSlot s ''content'')]
                    @ (case getSlot s ''lead'' of
                         SlotBuilder f \<Rightarrow> [(''lead'', getSlot s ''lead'')]
                       | SlotUndefined \<Rightarrow> []))) (\<lambda>m.
        tagFn ''section''
          [AttrsArg [(''class'', AStr (cls ctx ''shell'')),
                     (''id'', AStr (elemIdValue (naming ctx) ''shell'' ''layout''))],
           ChildArg (CRaw m)]))\<rparr>"

text \<open>
  \<open>starterDesignSystem\<close>: the builder chain. The call \<open>.policies(...)\<close> turns the
  wrapper elements off, which the model does not have; \<open>.build()\<close> returns the system.
\<close>

definition starterDesignSystem :: "string \<Rightarrow> ds_error + DesignSystem" where
  "starterDesignSystem dsName =
     andThen (addRegion starterMainRegion
                ((createDesignSystem dsName starter_naming)
                   \<lparr>uaDependencies := [\<lparr>mountPoint = picoCssUrl, canonicalSource = picoCssUrl,
                                          mimeType = ''text/css'', asModule = False\<rparr>]\<rparr>))
       (addLayout starterLayout)"

text \<open>The design system that \<open>starterDesignSystem()\<close> builds.\<close>

definition starter_ds :: DesignSystem where
  "starter_ds =
     \<lparr>ds_name = ''starter-ds'', ds_naming = starter_naming, unknownSlotMode = Throw,
      uaDependencies = [\<lparr>mountPoint = picoCssUrl, canonicalSource = picoCssUrl,
                         mimeType = ''text/css'', asModule = False\<rparr>],
      regions = [(''Main'', starterMainRegion)],
      layouts = [(''Starter'', starterLayout)]\<rparr>"

section \<open>lib/universal/fluent-ds-starter_test.ts\<close>

definition starter_test_slots :: SlotMap where
  "starter_test_slots =
     [(''title'', SlotBuilder (\<lambda>ctx. Inr (trustedRaw ''Starter DS'' None))),
      (''lead'', SlotBuilder (\<lambda>ctx. tagFn ''p'' [ChildArg (CStr ''PicoCSS-powered starter.'')])),
      (''content'', SlotBuilder (\<lambda>ctx. tagFn ''p'' [ChildArg (CStr ''Hello from the starter design system.'')]))]"

definition starter_test_page :: "ds_error + string" where
  "starter_test_page =
     andThen (starterDesignSystem ''starter-ds'') (\<lambda>ds.
     andThen (page ds ''Starter'' \<lparr>opt_slots = starter_test_slots, opt_headSlots = None\<rparr>) (\<lambda>p.
     Inr (trim (renderPretty [PRaw p]))))"

text \<open>The expected document of the test, line by line.\<close>

definition starter_fixture :: string where
  "starter_fixture = joinLF
     [''<!doctype html>'',
      ''<html>'',
      ''  <head>'',
      ''    <link href='' @ [dq] @ ''https://cdn.jsdelivr.net/npm/@picocss/pico@2/css/pico.min.css'' @ [dq]
        @ '' rel='' @ [dq] @ ''stylesheet'' @ [dq] @ ''>'',
      ''  </head>'',
      ''  <body>'',
      ''    <section class='' @ [dq] @ ''layout-shell'' @ [dq] @ '' id='' @ [dq] @ ''layout-shell'' @ [dq] @ ''>'',
      ''      <main class='' @ [dq] @ ''region-main'' @ [dq] @ '' id='' @ [dq] @ ''region-main'' @ [dq] @ ''>'',
      ''        <h1>Starter DS</h1>'',
      ''        <div class='' @ [dq] @ ''region-lead'' @ [dq] @ ''>'',
      ''          <p>PicoCSS-powered starter.</p>'',
      ''        </div>'',
      ''        <section class='' @ [dq] @ ''region-content'' @ [dq] @ ''>'',
      ''          <p>Hello from the starter design system.</p>'',
      ''        </section>'',
      ''      </main>'',
      ''    </section>'',
      ''  </body>'',
      ''</html>'']"

text \<open>What the model renders for the call of the test, line by line.\<close>

definition starter_rendered :: string where
  "starter_rendered = joinLF
     [''<!doctype html>'',
      ''<html>'',
      ''  <head>'',
      ''    <link href='' @ [dq] @ ''https://cdn.jsdelivr.net/npm/@picocss/pico@2/css/pico.min.css'' @ [dq]
        @ '' rel='' @ [dq] @ ''stylesheet'' @ [dq] @ ''>'',
      ''  </head>'',
      ''  <body>'',
      ''    <section class='' @ [dq] @ ''layout-shell'' @ [dq] @ '' id='' @ [dq] @ ''layout-shell'' @ [dq] @ ''>'',
      ''      <main class='' @ [dq] @ ''region-main'' @ [dq] @ '' id='' @ [dq] @ ''region-main'' @ [dq] @ ''>'',
      ''        <h1>'',
      ''          Starter DS'',
      ''        </h1>'',
      ''        <div class='' @ [dq] @ ''region-lead'' @ [dq] @ ''>'',
      ''          <p>PicoCSS-powered starter.</p>'',
      ''        </div>'',
      ''        <section class='' @ [dq] @ ''region-content'' @ [dq] @ ''>'',
      ''          <p>Hello from the starter design system.</p>'',
      ''        </section>'',
      ''      </main>'',
      ''    </section>'',
      ''  </body>'',
      ''</html>'']"

text \<open>A slot builder for examples.\<close>

definition some_builder :: SlotVal where
  "some_builder = SlotBuilder (\<lambda>ctx. Inr (trustedRaw ''x'' None))"

section \<open>lib/natural-html/design-system/natural.ts: merging the head\<close>




text \<open>
  The \<open>page\<close> of the natural design system: the \<open>page\<close> of the runtime (a parameter:
  \<open>lib/natural-html/design-system.ts\<close> is not among the sources) called with the merged
  head in place of the caller's.
\<close>

record ('s, 'v) NaturalPageOptions =
  np_slots :: 's
  np_headSlots :: "(string \<times> 'v) list option"


section \<open>Attribute serialization and escaping as the specification words them\<close>

text \<open>
  The token of one attribute in the spec's words: \<open>true\<close> gives the bare name,
  \<open>false\<close>, \<open>null\<close> and \<open>undefined\<close> give nothing, any other value gives
  \<open>key="escaped(value)"\<close>.
\<close>

fun spec_attr :: "string \<Rightarrow> AttrValue \<Rightarrow> string" where
  "spec_attr k (ABool True) = '' '' @ k"
| "spec_attr k (ABool False) = []"
| "spec_attr k ANull = []"
| "spec_attr k AUndefined = []"
| "spec_attr k v = '' '' @ k @ ''='' @ [dq] @ escapeHtml (String v) @ [dq]"

text \<open>The attributes of a map in the spec's words: the tokens of its keys, sorted.\<close>

definition spec_attrs :: "Attrs \<Rightarrow> string" where
  "spec_attrs a =
     concat (map (\<lambda>k. spec_attr k (getProp a k)) (sorted_list_of_set (set (map fst a))))"

text \<open>Escaping in the spec's words: each of the five characters becomes its entity.\<close>

fun escapeChar :: "char \<Rightarrow> string" where
  "escapeChar c =
     (if c = CHR ''&'' then ''&amp;''
      else if c = CHR ''<'' then ''&lt;''
      else if c = CHR ''>'' then ''&gt;''
      else if c = dq then ''&quot;''
      else if c = sq then ''&#39;''
      else [c])"

text \<open>
  What a flattened child adds to the minimized string of its parent: a string is escaped,
  a \<open>RawHtml\<close> is the minimized rendering of the AST it carries.
\<close>

fun childHtml :: "Flat \<Rightarrow> string" where
  "childHtml (FStr s) = concat (map escapeChar s)"
| "childHtml (FRaw rh) = renderAstMinimized (retainedAst rh)"
| "childHtml (FDom d) = []"
| "childHtml FOther = []"

section \<open>Properties of flattening\<close>

lemma visit_each_gen:
  "(\<And>x out. x \<in> set xs \<Longrightarrow> visit x out = out @ visit x [])
   \<Longrightarrow> visit_each xs out = out @ concat (map (\<lambda>c. visit c []) xs)"
proof (induction xs arbitrary: out)
  case Nil
  show ?case by simp
next
  case (Cons x xs)
  have "visit_each xs (visit x out) = visit x out @ concat (map (\<lambda>c. visit c []) xs)"
    by (rule Cons.IH) (rule Cons.prems, simp)
  moreover have "visit x out = out @ visit x []"
    by (rule Cons.prems) simp
  ultimately show ?case by simp
qed

lemma run_builder_gen:
  "(\<And>xs x out. xs \<in> set calls \<Longrightarrow> x \<in> set xs \<Longrightarrow> visit x out = out @ visit x [])
   \<Longrightarrow> run_builder calls out = out @ concat (map (\<lambda>xs. visit_each xs []) calls)"
proof (induction calls arbitrary: out)
  case Nil
  show ?case by simp
next
  case (Cons xs calls)
  have vx: "\<And>x acc. x \<in> set xs \<Longrightarrow> visit x acc = acc @ visit x []"
    by (rule Cons.prems[of xs]) simp_all
  have step: "\<And>acc. visit_each xs acc = acc @ concat (map (\<lambda>c. visit c []) xs)"
    by (rule visit_each_gen) (rule vx)
  have rest: "\<And>ys x acc. ys \<in> set calls \<Longrightarrow> x \<in> set ys \<Longrightarrow> visit x acc = acc @ visit x []"
    by (rule Cons.prems) simp_all
  have "run_builder calls (visit_each xs out)
          = visit_each xs out @ concat (map (\<lambda>xs. visit_each xs []) calls)"
    by (rule Cons.IH) (rule rest)
  then show ?case
    using step[of out] step[of "[]"] by simp
qed

lemma visit_out: "visit c out = out @ visit c []"
proof (induction c arbitrary: out)
  case (CArr xs)
  have e: "\<And>acc. visit_each xs acc = acc @ concat (map (\<lambda>c. visit c []) xs)"
    by (rule visit_each_gen) (rule CArr)
  show ?case
    using e[of out] e[of "[]"] by simp
next
  case (CBuilder calls)
  have e: "\<And>acc. run_builder calls acc = acc @ concat (map (\<lambda>xs. visit_each xs []) calls)"
    by (rule run_builder_gen) (rule CBuilder)
  show ?case
    using e[of out] e[of "[]"] by simp
next
  case (CBool b)
  show ?case by (cases b) simp_all
qed simp_all

lemma visit_append:
  "visit_each xs out = out @ concat (map (\<lambda>c. visit c []) xs)"
  "run_builder calls out = out @ concat (map (\<lambda>xs. visit_each xs []) calls)"
  by (rule visit_each_gen, rule visit_out) (rule run_builder_gen, rule visit_out)

lemma flattenChildren_Nil: "flattenChildren [] = []"
  by (simp add: flattenChildren_def)

lemma flattenChildren_Cons: "flattenChildren (c # cs) = visit c [] @ flattenChildren cs"
  unfolding flattenChildren_def using visit_append(1)[of "c # cs" "[]"] visit_append(1)[of cs "[]"]
  by simp

lemma visit_each_flat: "visit_each xs [] = flattenChildren xs"
  by (simp add: flattenChildren_def)

lemma run_builder_flat: "run_builder calls [] = concat (map flattenChildren calls)"
  using visit_append(2)[of calls "[]"] by (simp add: flattenChildren_def[abs_def])

text \<open>
  Claim C7. Flattening a child list drops \<open>null\<close>, \<open>undefined\<close>, \<open>false\<close> and \<open>true\<close>
  (no text is emitted for a boolean), expands a nested array in place, and runs a builder
  by splicing in, call after call of its add-child callback, the flattened arguments of
  that call; strings, numbers (as text), \<open>RawHtml\<close> values and DOM-like objects pass
  through in order. The whole list is produced by one left-to-right walk.
\<close>

theorem flattenChildren_rules:
  "flattenChildren [] = []
   \<and> flattenChildren (CNull # cs) = flattenChildren cs
   \<and> flattenChildren (CUndefined # cs) = flattenChildren cs
   \<and> flattenChildren (CBool b # cs) = flattenChildren cs
   \<and> flattenChildren (CArr xs # cs) = flattenChildren xs @ flattenChildren cs
   \<and> flattenChildren (CBuilder calls # cs) = concat (map flattenChildren calls) @ flattenChildren cs
   \<and> flattenChildren (CStr s # cs) = FStr s # flattenChildren cs
   \<and> flattenChildren (CNum n # cs) = FStr n # flattenChildren cs
   \<and> flattenChildren (CRaw r # cs) = FRaw r # flattenChildren cs
   \<and> flattenChildren (CDom d # cs) = FDom d # flattenChildren cs"
  by (cases b) (simp_all add: flattenChildren_Nil flattenChildren_Cons visit_each_flat run_builder_flat)

section \<open>Properties of the raw policy\<close>

text \<open>
  Claim C8. Once \<open>setRawPolicy({ mode: "dev-strict" })\<close> has run, whatever the policy was
  before, every call of \<open>raw\<close> throws (the message names the dev-strict policy, followed
  by the hint when there is one) and returns no \<open>RawHtml\<close>; \<open>trustedRaw\<close> does not read
  the policy and returns the wrapper of its argument; under the initial, permissive
  policy \<open>raw(html)\<close> returns what \<open>trustedRaw(html)\<close> returns.
\<close>

theorem raw_policy:
  "raw (setRawPolicy \<lparr>mode = Some (Some DevStrict)\<rparr> p) html hint
     = Inl (Error (case hint of
                     None \<Rightarrow> ''raw() is blocked by dev-strict policy''
                   | Some h \<Rightarrow> if h = [] then ''raw() is blocked by dev-strict policy''
                               else ''raw() is blocked by dev-strict policy: '' @ h))
   \<and> trustedRaw html hint = \<lparr>rawHtml = html, ast = Some (Raw html)\<rparr>
   \<and> raw rawPolicy_init html hint = Inr (trustedRaw html hint)"
  by (simp add: raw_def setRawPolicy_def rawPolicy_init_def trustedRaw_def)

theorem raw_policy_witness:
  "raw (setRawPolicy \<lparr>mode = Some (Some DevStrict)\<rparr> rawPolicy_init) ''<b>ok</b>'' None
     = Inl (Error ''raw() is blocked by dev-strict policy'')
   \<and> raw rawPolicy_init ''<b>ok</b>'' None = Inr \<lparr>rawHtml = ''<b>ok</b>'', ast = Some (Raw ''<b>ok</b>'')\<rparr>"
  using raw_policy[of rawPolicy_init "''<b>ok</b>''" None] by simp

section \<open>Properties of tag functions\<close>

lemma flatToAst_dom:
  "FDom d \<in> set flat \<Longrightarrow> FOther \<notin> set flat \<Longrightarrow>
     flatToAst flat = Inl (Error ''Fluent server error: DomNodeLike not supported here.'')"
  by (induction flat rule: flatToAst.induct) (auto split: sum.splits)

lemma el_unfold:
  "el tag args =
     (if isVoidElement tag
      then Inr \<lparr>rawHtml = renderAstMinimized (Element tag (map_option attrsToAst (fst (splitArgs args))) None True),
                 ast = Some (Element tag (map_option attrsToAst (fst (splitArgs args))) None True)\<rparr>
      else (case argsAsChildren (snd (splitArgs args)) of
              Inl e \<Rightarrow> Inl e
            | Inr kids \<Rightarrow>
                (case flatToAst (flattenChildren kids) of
                   Inl e \<Rightarrow> Inl e
                 | Inr cs \<Rightarrow>
                     Inr \<lparr>rawHtml = renderAstMinimized (Element tag (map_option attrsToAst (fst (splitArgs args))) (Some cs) False),
                          ast = Some (Element tag (map_option attrsToAst (fst (splitArgs args))) (Some cs) False)\<rparr>)))"
  by (cases "splitArgs args") (simp add: el_def childrenToAst_def Let_def split: sum.splits)

lemma flatToAst_throws:
  "(\<exists>d. FDom d \<in> set flat) \<or> FOther \<in> set flat \<Longrightarrow>
     flatToAst flat = Inl (Error ''Fluent server error: DomNodeLike not supported here.'')
     \<or> flatToAst flat = Inl (Error ''Fluent server error: unsupported child type.'')"
  by (induction flat rule: flatToAst.induct) (auto split: sum.splits)

lemma visit_no_other:
  "FOther \<notin> set out \<Longrightarrow> FOther \<notin> set (visit c out)"
  "FOther \<notin> set out \<Longrightarrow> FOther \<notin> set (visit_each xs out)"
  "FOther \<notin> set out \<Longrightarrow> FOther \<notin> set (run_builder calls out)"
  by (induction c out and xs out and calls out rule: visit_visit_each_run_builder.induct) simp_all

lemma flattenChildren_no_other: "FOther \<notin> set (flattenChildren children)"
  by (simp add: flattenChildren_def visit_no_other)

lemma el_cached: "el tag args = Inr r \<Longrightarrow> \<exists>a. ast r = Some a \<and> rawHtml r = renderAstMinimized a"
  by (auto simp: el_def Let_def split: prod.splits if_splits sum.splits)

text \<open>
  Claim C9. The \<open>RawHtml\<close> a tag function returns carries an AST, and its cached string
  is the minimized rendering of that AST; so \<open>render\<close> over values returned by tag
  functions gives what the minimized renderer gives on the fragment of their ASTs.
\<close>

theorem el_cache_consistent:
  "(el tag args = Inr r \<longrightarrow> (\<exists>a. ast r = Some a \<and> rawHtml r = renderAstMinimized a))
   \<and> ((\<forall>p \<in> set parts. \<exists>t as. el t as = Inr p)
        \<longrightarrow> render (map PRaw parts) = renderAstMinimized (Fragment (map retainedAst parts)))"
proof (intro conjI impI)
  assume "el tag args = Inr r"
  then show "\<exists>a. ast r = Some a \<and> rawHtml r = renderAstMinimized a" by (rule el_cached)
next
  assume H: "\<forall>p \<in> set parts. \<exists>t as. el t as = Inr p"
  have "\<And>p. p \<in> set parts \<Longrightarrow> rawHtml p = renderAstMinimized (retainedAst p)"
  proof -
    fix p assume "p \<in> set parts"
    with H obtain t as where "el t as = Inr p" by blast
    from el_cached[OF this] show "rawHtml p = renderAstMinimized (retainedAst p)"
      by (auto simp: retainedAst_def)
  qed
  then show "render (map PRaw parts) = renderAstMinimized (Fragment (map retainedAst parts))"
    by (simp add: render_def comp_def cong: map_cong)
qed


theorem el_cache_consistent_witness:
  "el ''br'' [] = Inr \<lparr>rawHtml = ''<br>'', ast = Some (Element ''br'' None None True)\<rparr>
   \<and> (\<exists>a. ast \<lparr>rawHtml = ''<br>'', ast = Some (Element ''br'' None None True)\<rparr> = Some a
          \<and> rawHtml \<lparr>rawHtml = ''<br>'', ast = Some (Element ''br'' None None True)\<rparr>
              = renderAstMinimized a)
   \<and> render (map PRaw [\<lparr>rawHtml = ''<br>'', ast = Some (Element ''br'' None None True)\<rparr>])
       = renderAstMinimized (Fragment (map retainedAst
           [\<lparr>rawHtml = ''<br>'', ast = Some (Element ''br'' None None True)\<rparr>]))"
proof -
  have e: "el ''br'' [] = Inr \<lparr>rawHtml = ''<br>'', ast = Some (Element ''br'' None None True)\<rparr>"
    by (simp add: el_def isVoidElement_def toLowerCase_def lowerChar_def VOID_ELEMENTS_def
          attrText_def)
  have h: "\<forall>p \<in> set [\<lparr>rawHtml = ''<br>'', ast = Some (Element ''br'' None None True)\<rparr>].
          \<exists>t as. el t as = Inr p"
    using e by auto
  show ?thesis
    using e h
      el_cache_consistent[of "''br''" "[]" "\<lparr>rawHtml = ''<br>'', ast = Some (Element ''br'' None None True)\<rparr>"
        "[\<lparr>rawHtml = ''<br>'', ast = Some (Element ''br'' None None True)\<rparr>]"]
    by blast
qed

text \<open>
  Claim C1, as the code has it. A void tag function called with children does not fail:
  \<open>br("x")\<close> returns \<open><br>\<close>.
\<close>

theorem void_children_counterexample:
  "el ''br'' [ChildArg (CStr ''x'')]
     = Inr \<lparr>rawHtml = ''<br>'', ast = Some (Element ''br'' None None True)\<rparr>"
  by (simp add: el_def isVoidElement_def toLowerCase_def lowerChar_def VOID_ELEMENTS_def attrText_def)

text \<open>
  Claim C1, amended. For every void tag (a name of \<open>VOID_ELEMENTS\<close>, in any letter case)
  and every argument list, the call returns normally: the result is the open tag with the
  attributes of a leading attribute map and no closing tag, and its AST is a void element
  without children. The children are not looked at.
\<close>

theorem void_children_ignored:
  "isVoidElement tag \<Longrightarrow>
     el tag args
       = Inr \<lparr>rawHtml = ''<'' @ tag @ attrText (map_option attrsToAst (fst (splitArgs args))) @ ''>'',
              ast = Some (Element tag (map_option attrsToAst (fst (splitArgs args))) None True)\<rparr>"
  by (simp add: el_unfold)

theorem void_children_ignored_witness:
  "isVoidElement ''img''
   \<and> el ''img'' [AttrsArg [(''src'', AStr ''a.png'')], ChildArg (CStr ''x'')]
       = Inr \<lparr>rawHtml = ''<img src='' @ [dq] @ ''a.png'' @ [dq] @ ''>'',
              ast = Some (Element ''img'' (Some [(''src'', AStr ''a.png'')]) None True)\<rparr>"
proof -
  have v: "isVoidElement ''img''"
    by (simp add: isVoidElement_def toLowerCase_def lowerChar_def VOID_ELEMENTS_def)
  have a: "attrsToAst [(''src'', AStr ''a.png'')] = [(''src'', AStr ''a.png'')]"
    by (simp add: attrsToAst_def Object_keys_def getProp_def)
  have e: "escapeHtml ''a.png'' = ''a.png''"
    by (simp add: escapeHtml_def replaceAll_def)
  show ?thesis
    using v void_children_ignored[OF v, of "[AttrsArg [(''src'', AStr ''a.png'')], ChildArg (CStr ''x'')]"]
    by (simp add: a e hasKey_def attrText_def attrToken_def escapeAttr_def)
qed

text \<open>
  Claim C10, as the code has it. A void tag function does not walk its children: a
  DOM-like child of \<open>img\<close> raises nothing and the call returns \<open><img>\<close>.
\<close>

theorem el_dom_child_void_counterexample:
  "argsAsChildren (snd (splitArgs [ChildArg (CDom (DomNodeLike ''1''))])) = Inr [CDom (DomNodeLike ''1'')]
   \<and> FDom (DomNodeLike ''1'') \<in> set (flattenChildren [CDom (DomNodeLike ''1'')])
   \<and> el ''img'' [ChildArg (CDom (DomNodeLike ''1''))]
       = Inr \<lparr>rawHtml = ''<img>'', ast = Some (Element ''img'' None None True)\<rparr>"
  by (simp add: el_def flattenChildren_def isVoidElement_def toLowerCase_def lowerChar_def
        VOID_ELEMENTS_def attrText_def)

text \<open>
  Claim C10, amended. For every tag that is not void: if the children flatten to a list
  that includes a DOM-like object, the call throws
  \<open>Fluent server error: DomNodeLike not supported here.\<close>; the loop of \<open>childrenToAst\<close>
  throws that error or \<open>Fluent server error: unsupported child type.\<close> on every list that
  holds a DOM-like object or any other unsupported value; and when the walk of the
  children itself throws, that error is the error of the call.
\<close>

theorem el_dom_child:
  "\<not> isVoidElement tag \<Longrightarrow>
     (\<forall>kids. argsAsChildren (snd (splitArgs args)) = Inr kids
          \<and> (\<exists>d. FDom d \<in> set (flattenChildren kids))
        \<longrightarrow> el tag args = Inl (Error ''Fluent server error: DomNodeLike not supported here.''))
     \<and> (\<forall>flat. (\<exists>d. FDom d \<in> set flat) \<or> FOther \<in> set flat
        \<longrightarrow> flatToAst flat = Inl (Error ''Fluent server error: DomNodeLike not supported here.'')
            \<or> flatToAst flat = Inl (Error ''Fluent server error: unsupported child type.''))
     \<and> (\<forall>e. argsAsChildren (snd (splitArgs args)) = Inl e \<longrightarrow> el tag args = Inl e)"
proof (intro conjI allI impI)
  fix kids
  assume v: "\<not> isVoidElement tag"
    and k: "argsAsChildren (snd (splitArgs args)) = Inr kids
          \<and> (\<exists>d. FDom d \<in> set (flattenChildren kids))"
  then obtain d where d: "FDom d \<in> set (flattenChildren kids)" by blast
  have "flatToAst (flattenChildren kids)
          = Inl (Error ''Fluent server error: DomNodeLike not supported here.'')"
    by (rule flatToAst_dom[OF d flattenChildren_no_other])
  then show "el tag args = Inl (Error ''Fluent server error: DomNodeLike not supported here.'')"
    using v k by (simp add: el_unfold)
next
  fix flat :: "Flat list"
  assume "(\<exists>d. FDom d \<in> set flat) \<or> FOther \<in> set flat"
  then show "flatToAst flat = Inl (Error ''Fluent server error: DomNodeLike not supported here.'')
            \<or> flatToAst flat = Inl (Error ''Fluent server error: unsupported child type.'')"
    by (rule flatToAst_throws)
next
  fix e
  assume "\<not> isVoidElement tag" and "argsAsChildren (snd (splitArgs args)) = Inl e"
  then show "el tag args = Inl e" by (simp add: el_unfold)
qed

theorem el_dom_child_witness:
  "\<not> isVoidElement ''div''
   \<and> argsAsChildren (snd (splitArgs [ChildArg (CArr [CStr ''a'', CDom (DomNodeLike ''1'')])]))
       = Inr [CArr [CStr ''a'', CDom (DomNodeLike ''1'')]]
   \<and> FDom (DomNodeLike ''1'') \<in> set (flattenChildren [CArr [CStr ''a'', CDom (DomNodeLike ''1'')]])
   \<and> el ''div'' [ChildArg (CArr [CStr ''a'', CDom (DomNodeLike ''1'')])]
       = Inl (Error ''Fluent server error: DomNodeLike not supported here.'')
   \<and> flatToAst [FStr ''a'', FOther] = Inl (Error ''Fluent server error: unsupported child type.'')
   \<and> argsAsChildren (snd (splitArgs [ChildArg (CStr ''a''), AttrsArg [(''toString'', AStr ''x'')]]))
       = Inl (TypeError ''Cannot convert object to primitive value'')
   \<and> el ''div'' [ChildArg (CStr ''a''), AttrsArg [(''toString'', AStr ''x'')]]
       = Inl (TypeError ''Cannot convert object to primitive value'')"
proof -
  have v: "\<not> isVoidElement ''div''"
    by (simp add: isVoidElement_def toLowerCase_def lowerChar_def VOID_ELEMENTS_def)
  have k: "argsAsChildren (snd (splitArgs [ChildArg (CArr [CStr ''a'', CDom (DomNodeLike ''1'')])]))
       = Inr [CArr [CStr ''a'', CDom (DomNodeLike ''1'')]]"
    by simp
  have f: "FDom (DomNodeLike ''1'') \<in> set (flattenChildren [CArr [CStr ''a'', CDom (DomNodeLike ''1'')]])"
    by (simp add: flattenChildren_def)
  have o: "flatToAst [FStr ''a'', FOther] = Inl (Error ''Fluent server error: unsupported child type.'')"
    by simp
  have t: "argsAsChildren (snd (splitArgs [ChildArg (CStr ''a''), AttrsArg [(''toString'', AStr ''x'')]]))
       = Inl (TypeError ''Cannot convert object to primitive value'')"
    by (simp add: hasKey_def)
  show ?thesis
    using v k f o t
      el_dom_child[OF v, of "[ChildArg (CArr [CStr ''a'', CDom (DomNodeLike ''1'')])]"]
      el_dom_child[OF v, of "[ChildArg (CStr ''a''), AttrsArg [(''toString'', AStr ''x'')]]"]
    by blast
qed

section \<open>Properties of attributes and escaping\<close>

lemma sorted_keys: "sort (Object_keys a) = sorted_list_of_set (set (map fst a))"
  using sorted_list_of_set_sort_remdups[of "map fst a"] by (simp add: Object_keys_def)

lemma spec_attr_ABool: "spec_attr k (ABool b) = (if b then '' '' @ k else [])"
  by (cases b) simp_all

lemma serializeAttr_spec: "serializeAttr a k = spec_attr k (getProp a k)"
  by (cases "getProp a k") (auto simp: serializeAttr_def Let_def escapeAttr_def spec_attr_ABool)

lemma serializeAttrs_spec: "serializeAttrs (Some a) = spec_attrs a"
proof -
  have "serializeAttr a = (\<lambda>k. spec_attr k (getProp a k))"
    by (rule ext) (rule serializeAttr_spec)
  then show ?thesis
    unfolding serializeAttrs_def spec_attrs_def sorted_keys by simp
qed

lemma concat_map_concat:
  "concat (map g (concat (map f xs))) = concat (map (\<lambda>k. concat (map g (f k))) xs)"
  by (induction xs) simp_all

lemma attrToken_kept:
  "concat (map attrToken (let v = getProp a k in if isNullish v \<or> v = ABool False then [] else [(k, v)]))
     = spec_attr k (getProp a k)"
  by (cases "getProp a k") (auto simp: attrToken_def Let_def escapeAttr_def spec_attr_ABool)

lemma attrText_spec: "attrText (Some (attrsToAst a)) = spec_attrs a"
  by (simp add: attrText_def attrsToAst_def spec_attrs_def sorted_keys concat_map_concat attrToken_kept)

lemma keys_attrsToAst_gen:
  "map fst (concat (map (\<lambda>k. let v = getProp a k
                      in if isNullish v \<or> v = ABool False then [] else [(k, v)]) ks))
     = filter (\<lambda>k. \<not> (isNullish (getProp a k) \<or> getProp a k = ABool False)) ks"
  by (induction ks) (simp_all add: Let_def)

lemma sorted_attrsToAst: "sorted (map fst (attrsToAst a)) \<and> distinct (map fst (attrsToAst a))"
  unfolding attrsToAst_def keys_attrsToAst_gen
  by (simp add: sorted_filter[where f = "\<lambda>x. x", simplified] Object_keys_def)

lemma map_of_eq_keys: "map_of b = map_of a \<Longrightarrow> set (map fst b) = set (map fst a)"
  using dom_map_of_conv_image_fst[of a] dom_map_of_conv_image_fst[of b] by simp

lemma map_of_eq_attrsToAst: "map_of b = map_of a \<Longrightarrow> attrsToAst b = attrsToAst a"
  using map_of_eq_keys[of b a]
  by (simp add: attrsToAst_def sorted_keys getProp_def)

lemma map_of_eq_isAttrs: "map_of b = map_of a \<Longrightarrow> isAttrs (AttrsArg b) = isAttrs (AttrsArg a)"
  using map_of_eq_keys[of b a] by (simp add: hasKey_def)

lemma el_attrs:
  assumes "isAttrs (AttrsArg a)"
  shows "el tag (AttrsArg a # rest) =
     (if isVoidElement tag
      then Inr \<lparr>rawHtml = renderAstMinimized (Element tag (Some (attrsToAst a)) None True),
                 ast = Some (Element tag (Some (attrsToAst a)) None True)\<rparr>
      else (case argsAsChildren rest of
              Inl e \<Rightarrow> Inl e
            | Inr kids \<Rightarrow>
                (case flatToAst (flattenChildren kids) of
                   Inl e \<Rightarrow> Inl e
                 | Inr cs \<Rightarrow>
                     Inr \<lparr>rawHtml = renderAstMinimized (Element tag (Some (attrsToAst a)) (Some cs) False),
                          ast = Some (Element tag (Some (attrsToAst a)) (Some cs) False)\<rparr>)))"
  using assms by (simp add: el_def childrenToAst_def Let_def split: sum.splits)

text \<open>
  Claim C3, amended. For every attribute map that the tag function takes as one (a plain
  object with neither a \<open>__rawHtml\<close> nor a \<open>nodeType\<close> key, passed first): the element
  that is returned starts with the tag name followed by the tokens of the map's keys in
  sorted order, \<open>true\<close> giving the bare name, \<open>false\<close>, \<open>null\<close> and \<open>undefined\<close>
  nothing, any other value \<open>key="v"\<close> with \<open>v\<close> escaped; the AST stores the kept pairs
  sorted by key, each key once; \<open>serializeAttrs\<close> gives the same text; and two maps with
  the same bindings, in whatever order their keys were inserted, give the same result.
\<close>

theorem attrs_sorted_serialization:
  assumes "isAttrs (AttrsArg a)"
  shows "(\<forall>r. el tag (AttrsArg a # rest) = Inr r \<longrightarrow>
            (\<exists>inner. rawHtml r = ''<'' @ tag @ spec_attrs a @ ''>'' @ inner)
            \<and> (\<exists>cs v. ast r = Some (Element tag (Some (attrsToAst a)) cs v)))
         \<and> sorted (map fst (attrsToAst a)) \<and> distinct (map fst (attrsToAst a))
         \<and> serializeAttrs (Some a) = spec_attrs a
         \<and> (\<forall>b. map_of b = map_of a \<longrightarrow> el tag (AttrsArg b # rest) = el tag (AttrsArg a # rest))"
proof (intro conjI allI impI)
  fix r assume "el tag (AttrsArg a # rest) = Inr r"
  then show "\<exists>inner. rawHtml r = ''<'' @ tag @ spec_attrs a @ ''>'' @ inner"
    using attrText_spec[of a]
    by (auto simp: el_attrs[OF assms] split: if_splits sum.splits)
next
  fix r assume "el tag (AttrsArg a # rest) = Inr r"
  then show "\<exists>cs v. ast r = Some (Element tag (Some (attrsToAst a)) cs v)"
    by (auto simp: el_attrs[OF assms] split: if_splits sum.splits)
next
  show "sorted (map fst (attrsToAst a))" "distinct (map fst (attrsToAst a))"
    using sorted_attrsToAst by simp_all
next
  show "serializeAttrs (Some a) = spec_attrs a" by (rule serializeAttrs_spec)
next
  fix b assume e: "map_of b = map_of a"
  have b: "isAttrs (AttrsArg b)" using map_of_eq_isAttrs[OF e] assms by simp
  show "el tag (AttrsArg b # rest) = el tag (AttrsArg a # rest)"
    unfolding el_attrs[OF assms] el_attrs[OF b] map_of_eq_attrsToAst[OF e] by (rule refl)
qed


theorem attrs_sorted_serialization_witness:
  "isAttrs (AttrsArg [(''z'', AStr ''3''), (''a'', AStr ''1''), (''m'', AStr ''2'')])
   \<and> el ''div'' [AttrsArg [(''z'', AStr ''3''), (''a'', AStr ''1''), (''m'', AStr ''2'')], ChildArg (CStr ''x'')]
       = Inr \<lparr>rawHtml = ''<div a='' @ [dq] @ ''1'' @ [dq] @ '' m='' @ [dq] @ ''2'' @ [dq]
                           @ '' z='' @ [dq] @ ''3'' @ [dq] @ ''>x</div>'',
              ast = Some (Element ''div''
                            (Some [(''a'', AStr ''1''), (''m'', AStr ''2''), (''z'', AStr ''3'')])
                            (Some [Text ''x'']) False)\<rparr>
   \<and> serializeAttrs (Some [(''z'', AStr ''3''), (''a'', AStr ''1''), (''m'', AStr ''2'')])
       = spec_attrs [(''z'', AStr ''3''), (''a'', AStr ''1''), (''m'', AStr ''2'')]
   \<and> el ''div'' [AttrsArg [(''a'', AStr ''1''), (''m'', AStr ''2''), (''z'', AStr ''3'')], ChildArg (CStr ''x'')]
       = el ''div'' [AttrsArg [(''z'', AStr ''3''), (''a'', AStr ''1''), (''m'', AStr ''2'')], ChildArg (CStr ''x'')]
   \<and> el ''input'' [AttrsArg [(''disabled'', ABool True), (''hidden'', ABool False), (''value'', AStr ''x'')]]
       = Inr \<lparr>rawHtml = ''<input disabled value='' @ [dq] @ ''x'' @ [dq] @ ''>'',
              ast = Some (Element ''input'' (Some [(''disabled'', ABool True), (''value'', AStr ''x'')])
                            None True)\<rparr>"
proof -
  have i: "isAttrs (AttrsArg [(''z'', AStr ''3''), (''a'', AStr ''1''), (''m'', AStr ''2'')])"
    by (simp add: hasKey_def)
  have m: "map_of [(''a'', AStr ''1''), (''m'', AStr ''2''), (''z'', AStr ''3'')]
             = map_of [(''z'', AStr ''3''), (''a'', AStr ''1''), (''m'', AStr ''2'')]"
    by (rule ext) simp
  have e1: "el ''div'' [AttrsArg [(''z'', AStr ''3''), (''a'', AStr ''1''), (''m'', AStr ''2'')], ChildArg (CStr ''x'')]
       = Inr \<lparr>rawHtml = ''<div a='' @ [dq] @ ''1'' @ [dq] @ '' m='' @ [dq] @ ''2'' @ [dq]
                           @ '' z='' @ [dq] @ ''3'' @ [dq] @ ''>x</div>'',
              ast = Some (Element ''div''
                            (Some [(''a'', AStr ''1''), (''m'', AStr ''2''), (''z'', AStr ''3'')])
                            (Some [Text ''x'']) False)\<rparr>"
    by code_simp
  have e2: "el ''input'' [AttrsArg [(''disabled'', ABool True), (''hidden'', ABool False), (''value'', AStr ''x'')]]
       = Inr \<lparr>rawHtml = ''<input disabled value='' @ [dq] @ ''x'' @ [dq] @ ''>'',
              ast = Some (Element ''input'' (Some [(''disabled'', ABool True), (''value'', AStr ''x'')])
                            None True)\<rparr>"
    by code_simp
  show ?thesis
    using i m e1 e2
      attrs_sorted_serialization[OF i, of "''div''" "[ChildArg (CStr ''x'')]"]
    by blast
qed

text \<open>
  Claim C3, as the code has it. An attribute map with a \<open>nodeType\<close> key is not taken
  as attributes: \<open>div({nodeType: "1"}, "x")\<close> walks it as a DOM-like child and throws.
\<close>

theorem attrs_nodeType_counterexample:
  "el ''div'' [AttrsArg [(''nodeType'', AStr ''1'')], ChildArg (CStr ''x'')]
     = Inl (Error ''Fluent server error: DomNodeLike not supported here.'')"
  by code_simp

lemma replaceAll_append: "replaceAll c rep (xs @ ys) = replaceAll c rep xs @ replaceAll c rep ys"
  by (simp add: replaceAll_def)

lemma escapeHtml_append: "escapeHtml (xs @ ys) = escapeHtml xs @ escapeHtml ys"
  by (simp add: escapeHtml_def replaceAll_append)

lemma escapeHtml_single: "escapeHtml [c] = escapeChar c"
  by (simp add: escapeHtml_def replaceAll_def)

lemma escapeHtml_chars: "escapeHtml s = concat (map escapeChar s)"
proof (induction s)
  case Nil
  show ?case by (simp add: escapeHtml_def replaceAll_def)
next
  case (Cons c s)
  have "escapeHtml (c # s) = escapeHtml [c] @ escapeHtml s"
    using escapeHtml_append[of "[c]" s] by simp
  then show ?case
    using Cons.IH escapeHtml_single[of c] by simp
qed

lemma flatToAst_html:
  "flatToAst flat = Inr cs \<Longrightarrow> concat (map renderAstMinimized cs) = concat (map childHtml flat)"
proof (induction flat arbitrary: cs rule: flatToAst.induct)
  case 1
  then show ?case by simp
next
  case (2 c flat)
  then show ?case by (auto simp: escapeHtml_chars split: sum.splits)
next
  case (3 rh flat)
  then show ?case by (auto split: sum.splits)
next
  case (4 d flat)
  then show ?case by simp
next
  case (5 flat)
  then show ?case by simp
qed

text \<open>
  Claim C4. \<open>escapeHtml\<close> replaces each occurrence of the five characters by its
  entity, once, and leaves every other character as it is; the minimized renderer applies
  it to text nodes and to attribute values that are not \<open>true\<close>; what \<open>trustedRaw\<close>
  wraps, and what \<open>raw\<close> wraps when it returns, is emitted as it is; and the string of an
  element that is not void is its open tag, what its flattened children add in order
  (strings escaped, raw content as it is), and its closing tag.
\<close>

theorem escaping_once:
  "escapeHtml s = concat (map escapeChar s)
   \<and> escapeAttr s = concat (map escapeChar s)
   \<and> renderAstMinimized (Text s) = concat (map escapeChar s)
   \<and> attrToken (k, AStr s) = '' '' @ k @ ''='' @ [dq] @ concat (map escapeChar s) @ [dq]
   \<and> childHtml (FRaw (trustedRaw h hint)) = h
   \<and> (\<forall>x. raw p h hint = Inr x \<longrightarrow> childHtml (FRaw x) = h)
   \<and> (\<forall>r. \<not> isVoidElement tag \<and> el tag args = Inr r \<longrightarrow>
          (\<exists>kids. argsAsChildren (snd (splitArgs args)) = Inr kids
             \<and> rawHtml r = ''<'' @ tag @ attrText (map_option attrsToAst (fst (splitArgs args))) @ ''>''
                           @ concat (map childHtml (flattenChildren kids))
                           @ ''</'' @ tag @ ''>''))"
proof (intro conjI allI impI)
  show "escapeHtml s = concat (map escapeChar s)" by (rule escapeHtml_chars)
  show "escapeAttr s = concat (map escapeChar s)" by (simp add: escapeAttr_def escapeHtml_chars)
  show "renderAstMinimized (Text s) = concat (map escapeChar s)" by (simp add: escapeHtml_chars)
  show "attrToken (k, AStr s) = '' '' @ k @ ''='' @ [dq] @ concat (map escapeChar s) @ [dq]"
    by (simp add: attrToken_def escapeAttr_def escapeHtml_chars)
  show "childHtml (FRaw (trustedRaw h hint)) = h"
    by (simp add: trustedRaw_def retainedAst_def)
next
  fix x assume "raw p h hint = Inr x"
  then show "childHtml (FRaw x) = h"
    by (auto simp: raw_def trustedRaw_def retainedAst_def split: if_splits)
next
  fix r assume a: "\<not> isVoidElement tag \<and> el tag args = Inr r"
  then obtain kids cs where k: "argsAsChildren (snd (splitArgs args)) = Inr kids"
    and cs: "flatToAst (flattenChildren kids) = Inr cs"
    and r: "rawHtml r = renderAstMinimized (Element tag (map_option attrsToAst (fst (splitArgs args))) (Some cs) False)"
    by (auto simp: el_unfold split: sum.splits)
  show "\<exists>kids. argsAsChildren (snd (splitArgs args)) = Inr kids
             \<and> rawHtml r = ''<'' @ tag @ attrText (map_option attrsToAst (fst (splitArgs args))) @ ''>''
                           @ concat (map childHtml (flattenChildren kids))
                           @ ''</'' @ tag @ ''>''"
    using k r flatToAst_html[OF cs] by simp
qed

theorem escaping_once_witness:
  "\<not> isVoidElement ''div''
   \<and> el ''div'' [ChildArg (CStr ''<script>alert(1)</script>'')]
       = Inr \<lparr>rawHtml = ''<div>&lt;script&gt;alert(1)&lt;/script&gt;</div>'',
              ast = Some (Element ''div'' None (Some [Text ''<script>alert(1)</script>'']) False)\<rparr>
   \<and> raw rawPolicy_init ''<b>ok</b>'' None = Inr (trustedRaw ''<b>ok</b>'' None)
   \<and> el ''div'' [ChildArg (CRaw (trustedRaw ''<b>ok</b>'' None))]
       = Inr \<lparr>rawHtml = ''<div><b>ok</b></div>'',
              ast = Some (Element ''div'' None (Some [Raw ''<b>ok</b>'']) False)\<rparr>
   \<and> argsAsChildren (snd (splitArgs [ChildArg (CStr ''<script>alert(1)</script>'')]))
       = Inr [CStr ''<script>alert(1)</script>'']
   \<and> ''<div>&lt;script&gt;alert(1)&lt;/script&gt;</div>''
       = ''<'' @ ''div'' @ attrText (map_option attrsToAst (fst (splitArgs [ChildArg (CStr ''<script>alert(1)</script>'')]))) @ ''>''
         @ concat (map childHtml (flattenChildren [CStr ''<script>alert(1)</script>'']))
         @ ''</'' @ ''div'' @ ''>''
   \<and> childHtml (FRaw (trustedRaw ''<b>ok</b>'' None)) = ''<b>ok</b>''"
proof -
  have v: "\<not> isVoidElement ''div''"
    by (simp add: isVoidElement_def toLowerCase_def lowerChar_def VOID_ELEMENTS_def)
  have e1: "el ''div'' [ChildArg (CStr ''<script>alert(1)</script>'')]
       = Inr \<lparr>rawHtml = ''<div>&lt;script&gt;alert(1)&lt;/script&gt;</div>'',
              ast = Some (Element ''div'' None (Some [Text ''<script>alert(1)</script>'']) False)\<rparr>"
    by code_simp
  have e2: "el ''div'' [ChildArg (CRaw (trustedRaw ''<b>ok</b>'' None))]
       = Inr \<lparr>rawHtml = ''<div><b>ok</b></div>'',
              ast = Some (Element ''div'' None (Some [Raw ''<b>ok</b>'']) False)\<rparr>"
    by code_simp
  have p: "raw rawPolicy_init ''<b>ok</b>'' None = Inr (trustedRaw ''<b>ok</b>'' None)"
    by (simp add: raw_def rawPolicy_init_def)
  have k: "argsAsChildren (snd (splitArgs [ChildArg (CStr ''<script>alert(1)</script>'')]))
       = Inr [CStr ''<script>alert(1)</script>'']"
    by simp
  note T = escaping_once[of "''<script>alert(1)</script>''" "''k''" "''<b>ok</b>''" None rawPolicy_init
        "''div''" "[ChildArg (CStr ''<script>alert(1)</script>'')]"]
  from T have c: "childHtml (FRaw (trustedRaw ''<b>ok</b>'' None)) = ''<b>ok</b>''"
    by (elim conjE) assumption
  from T have a: "\<forall>r. \<not> isVoidElement ''div''
          \<and> el ''div'' [ChildArg (CStr ''<script>alert(1)</script>'')] = Inr r \<longrightarrow>
          (\<exists>kids. argsAsChildren (snd (splitArgs [ChildArg (CStr ''<script>alert(1)</script>'')])) = Inr kids
             \<and> rawHtml r = ''<'' @ ''div'' @ attrText (map_option attrsToAst (fst (splitArgs [ChildArg (CStr ''<script>alert(1)</script>'')]))) @ ''>''
                           @ concat (map childHtml (flattenChildren kids))
                           @ ''</'' @ ''div'' @ ''>'')"
    by (elim conjE) assumption
  from a[rule_format, OF conjI[OF v e1]] obtain kids
    where kk: "argsAsChildren (snd (splitArgs [ChildArg (CStr ''<script>alert(1)</script>'')])) = Inr kids"
      and rr: "rawHtml \<lparr>rawHtml = ''<div>&lt;script&gt;alert(1)&lt;/script&gt;</div>'',
              ast = Some (Element ''div'' None (Some [Text ''<script>alert(1)</script>'']) False)\<rparr>
             = ''<'' @ ''div'' @ attrText (map_option attrsToAst (fst (splitArgs [ChildArg (CStr ''<script>alert(1)</script>'')]))) @ ''>''
                           @ concat (map childHtml (flattenChildren kids))
                           @ ''</'' @ ''div'' @ ''>''"
    by (elim exE conjE)
  have kids: "kids = [CStr ''<script>alert(1)</script>'']"
    using k kk by simp
  have d: "''<div>&lt;script&gt;alert(1)&lt;/script&gt;</div>''
       = ''<'' @ ''div'' @ attrText (map_option attrsToAst (fst (splitArgs [ChildArg (CStr ''<script>alert(1)</script>'')]))) @ ''>''
         @ concat (map childHtml (flattenChildren [CStr ''<script>alert(1)</script>'']))
         @ ''</'' @ ''div'' @ ''>''"
    using rr unfolding kids RawHtml.select_convs by this
  from v e1 p e2 k d c show ?thesis
    by (intro conjI)
qed

section \<open>Properties of the design system\<close>

lemma validateSlots_missing:
  assumes "\<exists>n \<in> set (required spec). \<not> isCallable s n"
  shows "\<exists>n. n \<in> set (required spec) \<and> \<not> isCallable s n
             \<and> validateSlots policy owner spec s = Some (MissingRequiredSlot n owner)"
proof -
  from assms have "filter (\<lambda>n. \<not> isCallable s n) (required spec) \<noteq> []"
    by (auto simp: filter_empty_conv)
  then obtain n rest where f: "filter (\<lambda>n. \<not> isCallable s n) (required spec) = n # rest"
    by (cases "filter (\<lambda>n. \<not> isCallable s n) (required spec)") auto
  then have "n \<in> set (filter (\<lambda>n. \<not> isCallable s n) (required spec))" by simp
  then have "n \<in> set (required spec) \<and> \<not> isCallable s n" by simp
  moreover have "validateSlots policy owner spec s = Some (MissingRequiredSlot n owner)"
    unfolding validateSlots_def f by simp
  ultimately show ?thesis by blast
qed

lemma validateSlots_unknown:
  assumes "\<forall>n \<in> set (required spec). isCallable s n"
    and "\<exists>k \<in> set (map fst s). k \<notin> set (required spec @ optional spec)"
  shows "\<exists>k. k \<in> set (map fst s) \<and> k \<notin> set (required spec @ optional spec)
             \<and> validateSlots Throw owner spec s = Some (UnknownSlot k owner)"
proof -
  have r: "filter (\<lambda>n. \<not> isCallable s n) (required spec) = []"
    using assms(1) by (auto simp: filter_empty_conv)
  from assms(2) have "filter (\<lambda>k. k \<notin> set (required spec @ optional spec)) (map fst s) \<noteq> []"
    by (auto simp: filter_empty_conv)
  then obtain k rest where f: "filter (\<lambda>k. k \<notin> set (required spec @ optional spec)) (map fst s) = k # rest"
    by (cases "filter (\<lambda>k. k \<notin> set (required spec @ optional spec)) (map fst s)") auto
  then have "k \<in> set (filter (\<lambda>k. k \<notin> set (required spec @ optional spec)) (map fst s))" by simp
  then have "k \<in> set (map fst s) \<and> k \<notin> set (required spec @ optional spec)" by simp
  moreover have "validateSlots Throw owner spec s = Some (UnknownSlot k owner)"
    unfolding validateSlots_def r f by simp
  ultimately show ?thesis by blast
qed

lemma invokeRegion_validate:
  "map_of (regions ds) name = Some r \<Longrightarrow>
   validateSlots (unknownSlotMode ds) (region_name r) (region_slots r) s = Some e \<Longrightarrow>
   invokeRegion ds name s = Inl e"
  by (simp add: invokeRegion_def)

lemma page_validate:
  "map_of (layouts ds) name = Some l \<Longrightarrow>
   validateSlots (unknownSlotMode ds) (layout_name l) (layout_slots l) (opt_slots options) = Some e \<Longrightarrow>
   page ds name options = Inl e"
  by (simp add: page_def)

text \<open>
  Claim C2. A region reached through \<open>api.region\<close>, and a layout reached through
  \<open>page\<close>, validate the slot map they are given before they render. If a required name
  is missing or bound to no callable builder, the call fails with \<open>MissingRequiredSlot\<close>
  naming such a slot and the region or layout. If every required slot is there, the policy
  is \<open>throw\<close>, and a supplied name is neither required nor optional, the call fails with
  \<open>UnknownSlot\<close> naming such a name and the owner. A new design system has the policy
  \<open>throw\<close>.
\<close>

theorem slot_completeness:
  "(map_of (regions ds) name = Some r \<longrightarrow>
      ((\<exists>n \<in> set (required (region_slots r)). \<not> isCallable s n) \<longrightarrow>
         (\<exists>n. n \<in> set (required (region_slots r)) \<and> \<not> isCallable s n
              \<and> invokeRegion ds name s = Inl (MissingRequiredSlot n (region_name r))))
      \<and> ((\<forall>n \<in> set (required (region_slots r)). isCallable s n) \<and> unknownSlotMode ds = Throw
           \<and> (\<exists>k \<in> set (map fst s). k \<notin> set (required (region_slots r) @ optional (region_slots r))) \<longrightarrow>
         (\<exists>k. k \<in> set (map fst s) \<and> k \<notin> set (required (region_slots r) @ optional (region_slots r))
              \<and> invokeRegion ds name s = Inl (UnknownSlot k (region_name r)))))
   \<and> (map_of (layouts ds) lname = Some l \<longrightarrow>
      ((\<exists>n \<in> set (required (layout_slots l)). \<not> isCallable (opt_slots options) n) \<longrightarrow>
         (\<exists>n. n \<in> set (required (layout_slots l)) \<and> \<not> isCallable (opt_slots options) n
              \<and> page ds lname options = Inl (MissingRequiredSlot n (layout_name l))))
      \<and> ((\<forall>n \<in> set (required (layout_slots l)). isCallable (opt_slots options) n) \<and> unknownSlotMode ds = Throw
           \<and> (\<exists>k \<in> set (map fst (opt_slots options)). k \<notin> set (required (layout_slots l) @ optional (layout_slots l))) \<longrightarrow>
         (\<exists>k. k \<in> set (map fst (opt_slots options)) \<and> k \<notin> set (required (layout_slots l) @ optional (layout_slots l))
              \<and> page ds lname options = Inl (UnknownSlot k (layout_name l)))))
   \<and> unknownSlotMode (createDesignSystem dsName ns) = Throw"
proof (intro conjI impI)
  assume r: "map_of (regions ds) name = Some r"
    and m: "\<exists>n \<in> set (required (region_slots r)). \<not> isCallable s n"
  from validateSlots_missing[OF m, of "unknownSlotMode ds" "region_name r"]
  show "\<exists>n. n \<in> set (required (region_slots r)) \<and> \<not> isCallable s n
              \<and> invokeRegion ds name s = Inl (MissingRequiredSlot n (region_name r))"
    using invokeRegion_validate[OF r] by blast
next
  assume r: "map_of (regions ds) name = Some r"
    and u: "(\<forall>n \<in> set (required (region_slots r)). isCallable s n) \<and> unknownSlotMode ds = Throw
           \<and> (\<exists>k \<in> set (map fst s). k \<notin> set (required (region_slots r) @ optional (region_slots r)))"
  from u validateSlots_unknown[of "region_slots r" s "region_name r"]
  show "\<exists>k. k \<in> set (map fst s) \<and> k \<notin> set (required (region_slots r) @ optional (region_slots r))
              \<and> invokeRegion ds name s = Inl (UnknownSlot k (region_name r))"
    using invokeRegion_validate[OF r, of s] by metis
next
  assume l: "map_of (layouts ds) lname = Some l"
    and m: "\<exists>n \<in> set (required (layout_slots l)). \<not> isCallable (opt_slots options) n"
  from validateSlots_missing[OF m, of "unknownSlotMode ds" "layout_name l"]
  show "\<exists>n. n \<in> set (required (layout_slots l)) \<and> \<not> isCallable (opt_slots options) n
              \<and> page ds lname options = Inl (MissingRequiredSlot n (layout_name l))"
    using page_validate[OF l] by blast
next
  assume l: "map_of (layouts ds) lname = Some l"
    and u: "(\<forall>n \<in> set (required (layout_slots l)). isCallable (opt_slots options) n) \<and> unknownSlotMode ds = Throw
           \<and> (\<exists>k \<in> set (map fst (opt_slots options)). k \<notin> set (required (layout_slots l) @ optional (layout_slots l)))"
  from u validateSlots_unknown[of "layout_slots l" "opt_slots options" "layout_name l"]
  show "\<exists>k. k \<in> set (map fst (opt_slots options)) \<and> k \<notin> set (required (layout_slots l) @ optional (layout_slots l))
              \<and> page ds lname options = Inl (UnknownSlot k (layout_name l))"
    using page_validate[OF l, of options] by metis
next
  show "unknownSlotMode (createDesignSystem dsName ns) = Throw"
    by (simp add: createDesignSystem_def)
qed


lemma starterDesignSystem_built: "starterDesignSystem ''starter-ds'' = Inr starter_ds"
  by (simp add: starterDesignSystem_def starter_ds_def createDesignSystem_def addRegion_def
        addLayout_def andThen_def starterMainRegion_def starterLayout_def)

lemma starter_specs:
  "required (region_slots starterMainRegion) = [''title'', ''content'']"
  "optional (region_slots starterMainRegion) = [''lead'']"
  "region_name starterMainRegion = ''Main''"
  "required (layout_slots starterLayout) = [''title'', ''content'']"
  "optional (layout_slots starterLayout) = [''lead'']"
  "layout_name starterLayout = ''Starter''"
  by (simp_all add: starterMainRegion_def starterLayout_def slots_def)

lemma callable_simps:
  "isCallable ((k, some_builder) # m) n = (if n = k then True else isCallable m n)"
  "isCallable [] n = False"
  by (simp_all add: isCallable_def getSlot_def some_builder_def)

theorem slot_completeness_witness:
  "invokeRegion starter_ds ''Main'' [(''title'', some_builder)]
     = Inl (MissingRequiredSlot ''content'' ''Main'')
   \<and> invokeRegion starter_ds ''Main''
         [(''title'', some_builder), (''content'', some_builder), (''extra'', some_builder)]
     = Inl (UnknownSlot ''extra'' ''Main'')
   \<and> page starter_ds ''Starter'' \<lparr>opt_slots = [(''title'', some_builder)], opt_headSlots = None\<rparr>
     = Inl (MissingRequiredSlot ''content'' ''Starter'')
   \<and> page starter_ds ''Starter''
         \<lparr>opt_slots = [(''title'', some_builder), (''content'', some_builder), (''extra'', some_builder)],
          opt_headSlots = None\<rparr>
     = Inl (UnknownSlot ''extra'' ''Starter'')"
proof -
  have r: "map_of (regions starter_ds) ''Main'' = Some starterMainRegion"
    and l: "map_of (layouts starter_ds) ''Starter'' = Some starterLayout"
    and t: "unknownSlotMode starter_ds = Throw"
    by (simp_all add: starter_ds_def)
  note T = slot_completeness[of starter_ds "''Main''" starterMainRegion _ "''Starter''" starterLayout _
             "''starter-ds''" starter_naming]
  have "\<exists>n. n \<in> set (required (region_slots starterMainRegion)) \<and> \<not> isCallable [(''title'', some_builder)] n
          \<and> invokeRegion starter_ds ''Main'' [(''title'', some_builder)]
              = Inl (MissingRequiredSlot n (region_name starterMainRegion))"
    using T[of "[(''title'', some_builder)]" "\<lparr>opt_slots = [], opt_headSlots = None\<rparr>"] r
    by (simp add: starter_specs callable_simps)
  then have a: "invokeRegion starter_ds ''Main'' [(''title'', some_builder)]
     = Inl (MissingRequiredSlot ''content'' ''Main'')"
    by (auto simp: starter_specs callable_simps)
  have "\<exists>k. k \<in> set (map fst [(''title'', some_builder), (''content'', some_builder), (''extra'', some_builder)])
          \<and> k \<notin> set (required (region_slots starterMainRegion) @ optional (region_slots starterMainRegion))
          \<and> invokeRegion starter_ds ''Main'' [(''title'', some_builder), (''content'', some_builder), (''extra'', some_builder)]
              = Inl (UnknownSlot k (region_name starterMainRegion))"
    using T[of "[(''title'', some_builder), (''content'', some_builder), (''extra'', some_builder)]"
              "\<lparr>opt_slots = [], opt_headSlots = None\<rparr>"] r t
    by (simp add: starter_specs callable_simps)
  then have b: "invokeRegion starter_ds ''Main''
         [(''title'', some_builder), (''content'', some_builder), (''extra'', some_builder)]
     = Inl (UnknownSlot ''extra'' ''Main'')"
    by (auto simp: starter_specs)
  have "\<exists>n. n \<in> set (required (layout_slots starterLayout)) \<and> \<not> isCallable [(''title'', some_builder)] n
          \<and> page starter_ds ''Starter'' \<lparr>opt_slots = [(''title'', some_builder)], opt_headSlots = None\<rparr>
              = Inl (MissingRequiredSlot n (layout_name starterLayout))"
    using T[of "[]" "\<lparr>opt_slots = [(''title'', some_builder)], opt_headSlots = None\<rparr>"] l
    by (simp add: starter_specs callable_simps)
  then have c: "page starter_ds ''Starter'' \<lparr>opt_slots = [(''title'', some_builder)], opt_headSlots = None\<rparr>
     = Inl (MissingRequiredSlot ''content'' ''Starter'')"
    by (auto simp: starter_specs callable_simps)
  have "\<exists>k. k \<in> set (map fst [(''title'', some_builder), (''content'', some_builder), (''extra'', some_builder)])
          \<and> k \<notin> set (required (layout_slots starterLayout) @ optional (layout_slots starterLayout))
          \<and> page starter_ds ''Starter''
               \<lparr>opt_slots = [(''title'', some_builder), (''content'', some_builder), (''extra'', some_builder)],
                opt_headSlots = None\<rparr>
              = Inl (UnknownSlot k (layout_name starterLayout))"
    using T[of "[]" "\<lparr>opt_slots = [(''title'', some_builder), (''content'', some_builder), (''extra'', some_builder)],
                opt_headSlots = None\<rparr>"] l t
    by (simp add: starter_specs callable_simps)
  then have d: "page starter_ds ''Starter''
         \<lparr>opt_slots = [(''title'', some_builder), (''content'', some_builder), (''extra'', some_builder)],
          opt_headSlots = None\<rparr>
     = Inl (UnknownSlot ''extra'' ''Starter'')"
    by (auto simp: starter_specs)
  from a b c d show ?thesis by simp
qed


text \<open>
  Claim C5, as the code has it. With the slot builders of the test, the pretty-printed
  page has the \<open>h1\<close> on three lines: its only child is the raw node that \<open>trustedRaw\<close>
  returns, and the pretty renderer puts an element on one line only when its only child
  is a text node. Every other line is the line of the fixture.
\<close>

theorem starter_page_pretty:
  "starter_test_page = Inr starter_rendered \<and> starter_rendered \<noteq> starter_fixture"
  by code_simp

section \<open>Properties of the head merge\<close>










end
